theory Spec2Isabelle
  imports Main
begin

section \<open>Voltage-time data: the class \<open>VoltageData\<close> of \<open>src/main.py\<close>\<close>

text \<open>
  The class stores a two-dimensional numpy array \<open>_data\<close> of 64-bit floats, built by the
  constructor from a sequence of times, a sequence of voltages and an optional sequence of
  voltage errors, or by \<open>from_file\<close> from the lines of a tab-separated text file.

  Floating point is not interpreted: the type of a cell is a type variable \<open>'a\<close>, and the
  library functions the source calls on floats (\<open>float()\<close> on a field of text, the format
  specifications of \<open>str.format\<close>, scipy's spline) are parameters of the functions that use
  them. What numpy does with the shape of an array (\<open>column_stack\<close>, \<open>_data[:, k]\<close>,
  \<open>_data[i, :]\<close>, \<open>shape\<close>) is written out, because the behaviour of the class depends
  on it. The arguments of the constructor are one-dimensional sequences of floats, which is
  what \<open>from_file\<close> and the tests pass.
\<close>

subsection \<open>Exceptions and console output\<close>

text \<open>
  The exceptions the class raises or lets through. \<open>TypeError\<close> is what Python raises when
  a value that is not callable (\<open>None\<close>) is called.
\<close>

datatype error = IndexError | ValueError | AttributeError string | TypeError

text \<open>
  What the class prints. \<open>Line_error i s\<close> is the text \<open>f"Line {i} error: {e}\n"\<close> that
  \<open>from_file\<close> prints, where \<open>e\<close> is the \<open>ValueError\<close> that \<open>float()\<close> raised on the
  field \<open>s\<close> of line \<open>i\<close> (its message quotes the field). \<open>Insufficient_points\<close> is the
  text \<open>'Insufficient number of points (>3)'\<close> that \<open>spline\<close> prints.
\<close>

datatype printed = Line_error nat string | Insufficient_points

subsection \<open>Strings\<close>

text \<open>
  A line of the file is a Python \<open>str\<close>; it is modelled as a \<open>string\<close> whose characters
  are the code points below 256. \<open>str.strip()\<close> without argument removes the characters for
  which \<open>str.isspace\<close> holds: among these code points they are 9 to 13, 28 to 32, 133
  and 160.
\<close>

abbreviation TAB :: char where
  "TAB \<equiv> CHR 0x09"

abbreviation NL :: char where
  "NL \<equiv> CHR 0x0A"

definition isspace :: "char \<Rightarrow> bool" where
  "isspace c =
     (let n = (of_char c :: nat)
      in (9 \<le> n \<and> n \<le> 13) \<or> (28 \<le> n \<and> n \<le> 32) \<or> n = 133 \<or> n = 160)"

text \<open>\<open>s.strip()\<close> when \<open>p\<close> is \<open>isspace\<close>, \<open>s.strip(chars)\<close> when \<open>p\<close> is membership in \<open>chars\<close>.\<close>

definition strip_with :: "(char \<Rightarrow> bool) \<Rightarrow> string \<Rightarrow> string" where
  "strip_with p s = rev (dropWhile p (rev (dropWhile p s)))"

definition strip :: "string \<Rightarrow> string" where
  "strip s = strip_with isspace s"

definition strip_chars :: "string \<Rightarrow> string \<Rightarrow> string" where
  "strip_chars chars s = strip_with (\<lambda>c. c \<in> set chars) s"

text \<open>\<open>s.split(sep)\<close> for a separator of one character: always at least one field.\<close>

fun split_on :: "char \<Rightarrow> string \<Rightarrow> string list" where
  "split_on sep [] = [[]]"
| "split_on sep (c # cs) =
     (if c = sep then [] # split_on sep cs
      else (case split_on sep cs of
              [] \<Rightarrow> [[c]]
            | f # fs \<Rightarrow> (c # f) # fs))"

text \<open>\<open>line.startswith("#")\<close>.\<close>

definition startswith_hash :: "string \<Rightarrow> bool" where
  "startswith_hash line = (case line of [] \<Rightarrow> False | c # _ \<Rightarrow> c = CHR ''#'')"

text \<open>\<open>str(i)\<close> for a non-negative integer: its decimal digits.\<close>

fun str_nat :: "nat \<Rightarrow> string" where
  "str_nat n =
     (if n < 10 then [char_of (48 + n)]
      else str_nat (n div 10) @ [char_of (48 + n mod 10)])"

text \<open>\<open>sep.join(xs)\<close>.\<close>

fun join :: "string \<Rightarrow> string list \<Rightarrow> string" where
  "join sep [] = []"
| "join sep [x] = x"
| "join sep (x # y # ys) = x @ sep @ join sep (y # ys)"

subsection \<open>The numpy array \<open>_data\<close>\<close>

text \<open>
  A two-dimensional array: its rows, and the length \<open>shape1\<close> of its second axis, which an
  array with no row still has. \<open>shape0\<close> is the number of rows.
\<close>

record 'a array2 =
  cells :: "'a list list"
  shape1 :: nat

definition shape0 :: "'a array2 \<Rightarrow> nat" where
  "shape0 a = length (cells a)"

text \<open>
  \<open>np.column_stack((t, v))\<close> on two one-dimensional arrays: each becomes a column; numpy
  raises \<open>ValueError\<close> when their lengths differ.
\<close>

definition column_stack_1d :: "'a list \<Rightarrow> 'a list \<Rightarrow> error + 'a array2" where
  "column_stack_1d t v =
     (if length t = length v
      then Inr \<lparr>cells = map2 (\<lambda>a b. [a, b]) t v, shape1 = 2\<rparr>
      else Inl ValueError)"

text \<open>
  \<open>np.column_stack((a, c))\<close> on a two-dimensional array and a one-dimensional one: \<open>c\<close>
  becomes one more column; numpy raises \<open>ValueError\<close> when \<open>c\<close> has not one entry for each
  row of \<open>a\<close>.
\<close>

definition column_stack_2d :: "'a array2 \<Rightarrow> 'a list \<Rightarrow> error + 'a array2" where
  "column_stack_2d a c =
     (if shape0 a = length c
      then Inr \<lparr>cells = map2 (\<lambda>r x. r @ [x]) (cells a) c, shape1 = shape1 a + 1\<rparr>
      else Inl ValueError)"

text \<open>\<open>a[:, k]\<close> for \<open>k \<ge> 0\<close>: column \<open>k\<close>, or \<open>IndexError\<close> when axis 1 is not that long.\<close>

definition column :: "'a array2 \<Rightarrow> nat \<Rightarrow> error + 'a list" where
  "column a k =
     (if k < shape1 a then Inr (map (\<lambda>r. r ! k) (cells a)) else Inl IndexError)"

text \<open>\<open>a[i, :]\<close> for \<open>i \<ge> 0\<close>: row \<open>i\<close>, or \<open>IndexError\<close> when axis 0 is not that long.\<close>

definition row :: "'a array2 \<Rightarrow> nat \<Rightarrow> error + 'a list" where
  "row a i = (if i < shape0 a then Inr (cells a ! i) else Inl IndexError)"

subsection \<open>The class\<close>

record 'a VoltageData =
  data :: "'a array2"

text \<open>
  \<open>__init__(self, times, voltages, voltage_errors=None)\<close>. \<open>np.array(_, dtype="float64")\<close>
  leaves a sequence of floats as it is.
\<close>

definition VoltageData_init ::
    "'a list \<Rightarrow> 'a list \<Rightarrow> 'a list option \<Rightarrow> error + 'a VoltageData" where
  "VoltageData_init tms volts voltage_errors =
     (case column_stack_1d tms volts of
        Inl e \<Rightarrow> Inl e
      | Inr d \<Rightarrow>
          (case voltage_errors of
             None \<Rightarrow> Inr \<lparr>data = d\<rparr>
           | Some v_err \<Rightarrow>
               (case column_stack_2d d v_err of
                  Inl e \<Rightarrow> Inl e
                | Inr d' \<Rightarrow> Inr \<lparr>data = d'\<rparr>)))"

definition timestamps :: "'a VoltageData \<Rightarrow> error + 'a list" where
  "timestamps self = column (data self) 0"

definition voltages :: "'a VoltageData \<Rightarrow> error + 'a list" where
  "voltages self = column (data self) 1"

text \<open>
  \<open>voltage_errs\<close>: the \<open>IndexError\<close> of \<open>_data[:, 2]\<close> is caught and an
  \<open>AttributeError\<close> raised in its place.
\<close>

definition voltage_errs :: "'a VoltageData \<Rightarrow> error + 'a list" where
  "voltage_errs self =
     (case column (data self) 2 of
        Inl IndexError \<Rightarrow> Inl (AttributeError ''The optional column 'voltage_errs' is not present.'')
      | Inl e \<Rightarrow> Inl e
      | Inr c \<Rightarrow> Inr c)"

definition num_rows :: "'a VoltageData \<Rightarrow> nat" where
  "num_rows self = shape0 (data self)"

definition num_columns :: "'a VoltageData \<Rightarrow> nat" where
  "num_columns self = shape1 (data self)"

definition len :: "'a VoltageData \<Rightarrow> nat" where
  "len self = num_rows self"

subsection \<open>Reading a file\<close>

text \<open>
  The state of the loop of \<open>from_file\<close>: the three lists \<open>t\<close>, \<open>v\<close>, \<open>dv\<close>, and what has
  been printed so far.
\<close>

record 'a acc =
  acc_t :: "'a list"
  acc_v :: "'a list"
  acc_dv :: "'a list"
  acc_out :: "printed list"

text \<open>\<open>values = line.strip().strip("\n").split("\t")\<close>.\<close>

definition line_values :: "string \<Rightarrow> string list" where
  "line_values line = split_on TAB (strip_chars [NL] (strip line))"

text \<open>
  The body of the loop on line \<open>i\<close>. \<open>pfloat\<close> is Python's \<open>float()\<close> on a \<open>str\<close>:
  \<open>None\<close> when it raises \<open>ValueError\<close>. A subscript \<open>values[k]\<close> beyond the end of
  \<open>values\<close> raises \<open>IndexError\<close>, and the handler of \<open>IndexError\<close> continues with the
  next line without printing; the handler of \<open>ValueError\<close> prints first. The two appends
  come after \<open>float(values[1])\<close> and before \<open>float(values[2])\<close>.
\<close>

definition read_line :: "(string \<Rightarrow> 'a option) \<Rightarrow> nat \<Rightarrow> string \<Rightarrow> 'a acc \<Rightarrow> 'a acc" where
  "read_line pfloat i line s =
     (if startswith_hash line then s
      else
        (case line_values line of
           [] \<Rightarrow> s
         | f0 # r0 \<Rightarrow>
             (case pfloat f0 of
                None \<Rightarrow> s\<lparr>acc_out := acc_out s @ [Line_error i f0]\<rparr>
              | Some t_value \<Rightarrow>
                  (case r0 of
                     [] \<Rightarrow> s
                   | f1 # r1 \<Rightarrow>
                       (case pfloat f1 of
                          None \<Rightarrow> s\<lparr>acc_out := acc_out s @ [Line_error i f1]\<rparr>
                        | Some v_value \<Rightarrow>
                            (let s' = s\<lparr>acc_t := acc_t s @ [t_value], acc_v := acc_v s @ [v_value]\<rparr>
                             in (case r1 of
                                   [] \<Rightarrow> s'
                                 | f2 # r2 \<Rightarrow>
                                     (case pfloat f2 of
                                        None \<Rightarrow> s'\<lparr>acc_out := acc_out s' @ [Line_error i f2]\<rparr>
                                      | Some dv_value \<Rightarrow> s'\<lparr>acc_dv := acc_dv s' @ [dv_value]\<rparr>))))))))"

text \<open>\<open>for i, line in enumerate(file)\<close>, from line number \<open>i\<close> on.\<close>

fun read_lines :: "(string \<Rightarrow> 'a option) \<Rightarrow> nat \<Rightarrow> string list \<Rightarrow> 'a acc \<Rightarrow> 'a acc" where
  "read_lines pfloat i [] s = s"
| "read_lines pfloat i (line # rest) s = read_lines pfloat (Suc i) rest (read_line pfloat i line s)"

text \<open>
  \<open>from_file\<close> on the lines of the file (opening and decoding the file are outside the
  model): what it prints, and the instance it returns or the exception of the constructor.
\<close>

definition from_file ::
    "(string \<Rightarrow> 'a option) \<Rightarrow> string list \<Rightarrow> printed list \<times> (error + 'a VoltageData)" where
  "from_file pfloat file =
     (let s = read_lines pfloat 0 file \<lparr>acc_t = [], acc_v = [], acc_dv = [], acc_out = []\<rparr>
      in (acc_out s,
          if length (acc_dv s) \<noteq> 0
          then VoltageData_init (acc_t s) (acc_v s) (Some (acc_dv s))
          else VoltageData_init (acc_t s) (acc_v s) None))"

text \<open>
  The two kinds of line the properties of \<open>from_file\<close> speak of: a line that is not a
  comment and whose first two fields are there and are floats, and such a line whose third
  field is there and is a float too.
\<close>

definition time_value_parsed :: "(string \<Rightarrow> 'a option) \<Rightarrow> string \<Rightarrow> bool" where
  "time_value_parsed pfloat line =
     (\<not> startswith_hash line \<and>
      (case line_values line of
         f0 # f1 # _ \<Rightarrow> pfloat f0 \<noteq> None \<and> pfloat f1 \<noteq> None
       | _ \<Rightarrow> False))"

definition third_parsed :: "(string \<Rightarrow> 'a option) \<Rightarrow> string \<Rightarrow> bool" where
  "third_parsed pfloat line =
     (\<not> startswith_hash line \<and>
      (case line_values line of
         f0 # f1 # f2 # _ \<Rightarrow> pfloat f0 \<noteq> None \<and> pfloat f1 \<noteq> None \<and> pfloat f2 \<noteq> None
       | _ \<Rightarrow> False))"

text \<open>
  An instance of \<open>pfloat\<close> to run examples with: \<open>float()\<close> on the strings of decimal
  digits, where it returns the float of that integer (here the integer itself), and on
  no other string. The examples use it on such strings and on strings that are not numbers
  at all, on which \<open>float()\<close> raises \<open>ValueError\<close>.
\<close>

definition is_digit :: "char \<Rightarrow> bool" where
  "is_digit c = (48 \<le> (of_char c :: nat) \<and> (of_char c :: nat) \<le> 57)"

definition float_digits :: "string \<Rightarrow> int option" where
  "float_digits s =
     (if s \<noteq> [] \<and> list_all is_digit s
      then Some (foldl (\<lambda>n c. 10 * n + (of_char c - 48)) 0 s)
      else None)"

subsection \<open>Iteration and rendering\<close>

text \<open>
  \<open>__iter__\<close> is a generator: the rows it yields, and the exception that ended it, if any.
  \<open>iter_rows a is\<close> is the loop over the indices \<open>is\<close>.
\<close>

fun iter_rows :: "'a array2 \<Rightarrow> nat list \<Rightarrow> 'a list list \<times> error option" where
  "iter_rows a [] = ([], None)"
| "iter_rows a (i # is) =
     (case row a i of
        Inl e \<Rightarrow> ([], Some e)
      | Inr r \<Rightarrow> (case iter_rows a is of (rs, e) \<Rightarrow> (r # rs, e)))"

definition iter :: "'a VoltageData \<Rightarrow> 'a list list \<times> error option" where
  "iter self = iter_rows (data self) [0..<len self]"

text \<open>A function that may raise, applied to each element in turn, up to the first exception.\<close>

fun collect :: "('x \<Rightarrow> error + 'y) \<Rightarrow> 'x list \<Rightarrow> error + 'y list" where
  "collect f [] = Inr []"
| "collect f (x # xs) =
     (case f x of
        Inl e \<Rightarrow> Inl e
      | Inr y \<Rightarrow> (case collect f xs of Inl e \<Rightarrow> Inl e | Inr ys \<Rightarrow> Inr (y # ys)))"

text \<open>
  \<open>__repr__\<close>: \<open>row_fmt\<close> has one \<open>{}\<close> for each column; \<open>row_fmt.format(*row)\<close> raises
  \<open>IndexError\<close> when the row has fewer entries and ignores the entries beyond. \<open>fmt\<close> is
  what \<open>{}\<close> makes of a float. The rows are formatted as the generator yields them, so an
  exception of \<open>format\<close> comes before the one that ended the generator.
\<close>

definition repr_row :: "('a \<Rightarrow> string) \<Rightarrow> nat \<Rightarrow> 'a list \<Rightarrow> error + string" where
  "repr_row fmt n r =
     (if length r < n then Inl IndexError else Inr (join '' '' (map fmt (take n r))))"

definition repr :: "('a \<Rightarrow> string) \<Rightarrow> 'a VoltageData \<Rightarrow> error + string" where
  "repr fmt self =
     (case iter self of
        (rs, stopped) \<Rightarrow>
          (case collect (repr_row fmt (num_columns self)) rs of
             Inl e \<Rightarrow> Inl e
           | Inr texts \<Rightarrow>
               (case stopped of
                  Some e \<Rightarrow> Inl e
                | None \<Rightarrow> Inr (join [NL] texts))))"

text \<open>
  \<open>__str__\<close>: \<open>row_fmt.format(i, *row)\<close> with the third field of the format only when
  there are three columns. \<open>fmt1\<close> and \<open>fmt2\<close> are what \<open>{:.1f}\<close> and \<open>{:.2f}\<close> make of a
  float.
\<close>

definition str_row ::
    "('a \<Rightarrow> string) \<Rightarrow> ('a \<Rightarrow> string) \<Rightarrow> nat \<Rightarrow> nat \<times> 'a list \<Rightarrow> error + string" where
  "str_row fmt1 fmt2 n ir =
     (case ir of
        (i, r) \<Rightarrow>
          (case r of
             a # b # r2 \<Rightarrow>
               (let two = ''Row '' @ str_nat i @ '' -> t : '' @ fmt1 a @ '' s   V : '' @ fmt2 b @ '' mV''
                in if n = 3
                   then (case r2 of
                           c # _ \<Rightarrow> Inr (two @ ''    dV : '' @ fmt2 c @ '' mV'')
                         | [] \<Rightarrow> Inl IndexError)
                   else Inr two)
           | _ \<Rightarrow> Inl IndexError))"

definition str ::
    "('a \<Rightarrow> string) \<Rightarrow> ('a \<Rightarrow> string) \<Rightarrow> 'a VoltageData \<Rightarrow> error + string" where
  "str fmt1 fmt2 self =
     (case iter self of
        (rs, stopped) \<Rightarrow>
          (case collect (str_row fmt1 fmt2 (num_columns self)) (zip [0..<length rs] rs) of
             Inl e \<Rightarrow> Inl e
           | Inr texts \<Rightarrow>
               (case stopped of
                  Some e \<Rightarrow> Inl e
                | None \<Rightarrow> Inr (join [NL] texts))))"

subsection \<open>The spline\<close>

text \<open>
  \<open>spline\<close>: what it prints and what it returns (\<open>None\<close>, or the object scipy built), or
  the exception it lets through. \<open>mk\<close> is \<open>InterpolatedUnivariateSpline(x, y, k=3)\<close>,
  which may raise.
\<close>

definition spline ::
    "('a list \<Rightarrow> 'a list \<Rightarrow> error + 's) \<Rightarrow> 'a VoltageData \<Rightarrow> printed list \<times> (error + 's option)" where
  "spline mk self =
     (if len self > 3
      then
        (case timestamps self of
           Inl e \<Rightarrow> ([], Inl e)
         | Inr x \<Rightarrow>
             (case voltages self of
                Inl e \<Rightarrow> ([], Inl e)
              | Inr y \<Rightarrow>
                  (case mk x y of
                     Inl e \<Rightarrow> ([], Inl e)
                   | Inr sp \<Rightarrow> ([], Inr (Some sp)))))
      else ([Insufficient_points], Inr None))"

text \<open>
  \<open>__call__\<close>: \<open>spline(t)\<close> on what \<open>self.spline()\<close> returned. \<open>ev\<close> is the call of
  scipy's object; the call of \<open>None\<close> raises \<open>TypeError\<close>.
\<close>

definition call ::
    "('a list \<Rightarrow> 'a list \<Rightarrow> error + 's) \<Rightarrow> ('s \<Rightarrow> 'q \<Rightarrow> error + 'r) \<Rightarrow>
     'a VoltageData \<Rightarrow> 'q \<Rightarrow> printed list \<times> (error + 'r)" where
  "call mk ev self q =
     (case spline mk self of
        (printed, Inl e) \<Rightarrow> (printed, Inl e)
      | (printed, Inr None) \<Rightarrow> (printed, Inl TypeError)
      | (printed, Inr (Some sp)) \<Rightarrow> (printed, ev sp q))"

subsection \<open>One call, by the value of the array\<close>

text \<open>
  The library functions the methods use: numpy's indexing \<open>_data[index]\<close> (which reads the
  array), the three formats, and scipy's spline.
\<close>

record ('a, 'i, 'g, 's, 'q, 'r) library =
  np_getitem :: "'a array2 \<Rightarrow> 'i \<Rightarrow> error + 'g"
  fmt_plain :: "'a \<Rightarrow> string"
  fmt_1f :: "'a \<Rightarrow> string"
  fmt_2f :: "'a \<Rightarrow> string"
  mk_spline :: "'a list \<Rightarrow> 'a list \<Rightarrow> error + 's"
  ev_spline :: "'s \<Rightarrow> 'q \<Rightarrow> error + 'r"

text \<open>\<open>__getitem__\<close>: \<open>self._data[index]\<close>.\<close>

definition getitem :: "('a array2 \<Rightarrow> 'i \<Rightarrow> error + 'g) \<Rightarrow> 'a VoltageData \<Rightarrow> 'i \<Rightarrow> error + 'g" where
  "getitem np self index = np (data self) index"

text \<open>The public operations other than \<open>plot\<close>, and what they return.\<close>

datatype ('i, 'q) request =
    Get_timestamps | Get_voltages | Get_voltage_errs
  | Num_rows | Num_columns | Len
  | Getitem 'i | Iter | Call 'q | Repr | Str | Spline

datatype ('a, 'g, 's, 'r) reply =
    Column "'a list" | Count nat | Item 'g | Rows "'a list list"
  | Text string | Interpolant "'s option" | Interpolated 'r

definition lift :: "('x \<Rightarrow> 'y) \<Rightarrow> error + 'x \<Rightarrow> error + 'y" where
  "lift f r = (case r of Inl e \<Rightarrow> Inl e | Inr x \<Rightarrow> Inr (f x))"

text \<open>
  One call on an instance taken as the value of its array: the instance after the call,
  what was printed, and the value returned or the exception raised. No method other than
  \<open>__init__\<close> assigns to \<open>self._data\<close>, so the instance after the call is \<open>self\<close>. What
  a call does to the memory of the array is the matter of the next subsection.
\<close>

definition perform ::
    "('a, 'i, 'g, 's, 'q, 'r) library \<Rightarrow> ('i, 'q) request \<Rightarrow> 'a VoltageData \<Rightarrow>
     'a VoltageData \<times> printed list \<times> (error + ('a, 'g, 's, 'r) reply)" where
  "perform lib req self =
     (case req of
        Get_timestamps \<Rightarrow> (self, [], lift Column (timestamps self))
      | Get_voltages \<Rightarrow> (self, [], lift Column (voltages self))
      | Get_voltage_errs \<Rightarrow> (self, [], lift Column (voltage_errs self))
      | Num_rows \<Rightarrow> (self, [], Inr (Count (num_rows self)))
      | Num_columns \<Rightarrow> (self, [], Inr (Count (num_columns self)))
      | Len \<Rightarrow> (self, [], Inr (Count (len self)))
      | Getitem index \<Rightarrow> (self, [], lift Item (getitem (np_getitem lib) self index))
      | Iter \<Rightarrow>
          (case iter self of
             (rs, None) \<Rightarrow> (self, [], Inr (Rows rs))
           | (rs, Some e) \<Rightarrow> (self, [], Inl e))
      | Call q \<Rightarrow>
          (case call (mk_spline lib) (ev_spline lib) self q of
             (printed, r) \<Rightarrow> (self, printed, lift Interpolated r))
      | Repr \<Rightarrow> (self, [], lift Text (repr (fmt_plain lib) self))
      | Str \<Rightarrow> (self, [], lift Text (str (fmt_1f lib) (fmt_2f lib) self))
      | Spline \<Rightarrow>
          (case spline (mk_spline lib) self of
             (printed, r) \<Rightarrow> (self, printed, lift Interpolant r)))"

subsection \<open>The instance and its array in memory\<close>

text \<open>
  The accessors and the iteration return numpy views, which share the memory of
  \<open>self._data\<close>, and \<open>spline\<close> hands two such views to scipy. To say what a call does to the
  stored array, the arrays that own their memory are put in a store, at addresses; a view
  is an address and a selection, \<open>a[:, k]\<close> or \<open>a[i, :]\<close>, and owns nothing. \<open>next_free\<close>
  is the first address not yet in use.
\<close>

type_synonym addr = nat

datatype view = Column_of addr nat | Row_of addr nat

record 'a store =
  buffer :: "addr \<Rightarrow> 'a array2"
  next_free :: addr

text \<open>The instance: its attribute \<open>_data\<close> refers to an array of the store.\<close>

record py_object =
  data_ref :: addr

text \<open>A new array, as \<open>column_stack\<close> returns one: at a fresh address.\<close>

definition alloc :: "'a array2 \<Rightarrow> 'a store \<Rightarrow> 'a store \<times> addr" where
  "alloc a st =
     (st\<lparr>buffer := (buffer st)(next_free st := a), next_free := Suc (next_free st)\<rparr>,
      next_free st)"

text \<open>
  \<open>VoltageData(times, voltages, voltage_errors)\<close> in a store: the array that \<open>__init__\<close>
  builds is new, and \<open>_data\<close> refers to it. (The arrays \<open>__init__\<close> builds on the way are
  not referred to afterwards and are left out.)
\<close>

definition VoltageData_new ::
    "'a store \<Rightarrow> 'a list \<Rightarrow> 'a list \<Rightarrow> 'a list option \<Rightarrow> 'a store \<times> (error + py_object)" where
  "VoltageData_new st tms volts voltage_errors =
     (case VoltageData_init tms volts voltage_errors of
        Inl e \<Rightarrow> (st, Inl e)
      | Inr d \<Rightarrow> (case alloc (data d) st of (st', a) \<Rightarrow> (st', Inr \<lparr>data_ref = a\<rparr>)))"

text \<open>The stored array, and the instance as a value, as the sections above have it.\<close>

definition table :: "'a store \<Rightarrow> py_object \<Rightarrow> 'a array2" where
  "table st self = buffer st (data_ref self)"

definition snapshot :: "'a store \<Rightarrow> py_object \<Rightarrow> 'a VoltageData" where
  "snapshot st self = \<lparr>data = table st self\<rparr>"

text \<open>What a view shows: the entries of its column or row, read in the store.\<close>

definition deref :: "'a store \<Rightarrow> view \<Rightarrow> 'a list" where
  "deref st al =
     (case al of
        Column_of a k \<Rightarrow> map (\<lambda>r. r ! k) (cells (buffer st a))
      | Row_of a i \<Rightarrow> cells (buffer st a) ! i)"

text \<open>
  numpy's \<open>view[j] = x\<close>, which code outside the class can run on a view it was given: it
  writes into the array the view was taken from (\<open>IndexError\<close> when \<open>j\<close> is beyond the end
  of the view).
\<close>

definition assign_through :: "'a store \<Rightarrow> view \<Rightarrow> nat \<Rightarrow> 'a \<Rightarrow> error + 'a store" where
  "assign_through st al j x =
     (case al of
        Column_of a k \<Rightarrow>
          (let b = buffer st a
           in if j < shape0 b
              then Inr (st\<lparr>buffer := (buffer st)
                         (a := b\<lparr>cells := (cells b)[j := (cells b ! j)[k := x]]\<rparr>)\<rparr>)
              else Inl IndexError)
      | Row_of a i \<Rightarrow>
          (let b = buffer st a
           in if j < shape1 b
              then Inr (st\<lparr>buffer := (buffer st)
                         (a := b\<lparr>cells := (cells b)[i := (cells b ! i)[j := x]]\<rparr>)\<rparr>)
              else Inl IndexError))"

text \<open>\<open>self._data[:, k]\<close> and \<open>self._data[i, :]\<close> as views of the stored array.\<close>

definition column_view :: "'a store \<Rightarrow> py_object \<Rightarrow> nat \<Rightarrow> error + view" where
  "column_view st self k =
     (if k < shape1 (table st self) then Inr (Column_of (data_ref self) k) else Inl IndexError)"

definition row_view :: "'a store \<Rightarrow> py_object \<Rightarrow> nat \<Rightarrow> error + view" where
  "row_view st self i =
     (if i < shape0 (table st self) then Inr (Row_of (data_ref self) i) else Inl IndexError)"

text \<open>The three accessors and \<open>__iter__\<close>, returning views.\<close>

definition timestamps_view :: "'a store \<Rightarrow> py_object \<Rightarrow> error + view" where
  "timestamps_view st self = column_view st self 0"

definition voltages_view :: "'a store \<Rightarrow> py_object \<Rightarrow> error + view" where
  "voltages_view st self = column_view st self 1"

definition voltage_errs_view :: "'a store \<Rightarrow> py_object \<Rightarrow> error + view" where
  "voltage_errs_view st self =
     (case column_view st self 2 of
        Inl IndexError \<Rightarrow> Inl (AttributeError ''The optional column 'voltage_errs' is not present.'')
      | Inl e \<Rightarrow> Inl e
      | Inr al \<Rightarrow> Inr al)"

fun iter_row_views :: "'a store \<Rightarrow> py_object \<Rightarrow> nat list \<Rightarrow> view list \<times> error option" where
  "iter_row_views st self [] = ([], None)"
| "iter_row_views st self (i # is) =
     (case row_view st self i of
        Inl e \<Rightarrow> ([], Some e)
      | Inr al \<Rightarrow> (case iter_row_views st self is of (als, e) \<Rightarrow> (al # als, e)))"

definition iter_views :: "'a store \<Rightarrow> py_object \<Rightarrow> view list \<times> error option" where
  "iter_views st self = iter_row_views st self [0..<len (snapshot st self)]"

text \<open>
  The library functions, which now work in the store: numpy's \<open>_data[index]\<close> is given the
  address of the array, scipy's constructor is given the two views, and each returns the
  store as it left it. The three formats are given floats, which are values.
\<close>

record ('a, 'i, 'g, 's, 'q, 'r) extern =
  np_index :: "'a store \<Rightarrow> addr \<Rightarrow> 'i \<Rightarrow> 'a store \<times> (error + 'g)"
  format_plain :: "'a \<Rightarrow> string"
  format_1f :: "'a \<Rightarrow> string"
  format_2f :: "'a \<Rightarrow> string"
  scipy_spline :: "'a store \<Rightarrow> view \<Rightarrow> view \<Rightarrow> 'a store \<times> (error + 's)"
  scipy_eval :: "'a store \<Rightarrow> 's \<Rightarrow> 'q \<Rightarrow> 'a store \<times> (error + 'r)"

text \<open>\<open>spline\<close> and \<open>__call__\<close> in the store.\<close>

definition spline_in ::
    "('a store \<Rightarrow> view \<Rightarrow> view \<Rightarrow> 'a store \<times> (error + 's)) \<Rightarrow> 'a store \<Rightarrow> py_object \<Rightarrow>
     'a store \<times> printed list \<times> (error + 's option)" where
  "spline_in mk st self =
     (if len (snapshot st self) > 3
      then
        (case timestamps_view st self of
           Inl e \<Rightarrow> (st, [], Inl e)
         | Inr x \<Rightarrow>
             (case voltages_view st self of
                Inl e \<Rightarrow> (st, [], Inl e)
              | Inr y \<Rightarrow>
                  (case mk st x y of
                     (st', Inl e) \<Rightarrow> (st', [], Inl e)
                   | (st', Inr sp) \<Rightarrow> (st', [], Inr (Some sp)))))
      else (st, [Insufficient_points], Inr None))"

definition call_in ::
    "('a store \<Rightarrow> view \<Rightarrow> view \<Rightarrow> 'a store \<times> (error + 's)) \<Rightarrow>
     ('a store \<Rightarrow> 's \<Rightarrow> 'q \<Rightarrow> 'a store \<times> (error + 'r)) \<Rightarrow> 'a store \<Rightarrow> py_object \<Rightarrow> 'q \<Rightarrow>
     'a store \<times> printed list \<times> (error + 'r)" where
  "call_in mk ev st self q =
     (case spline_in mk st self of
        (st', printed, Inl e) \<Rightarrow> (st', printed, Inl e)
      | (st', printed, Inr None) \<Rightarrow> (st', printed, Inl TypeError)
      | (st', printed, Inr (Some sp)) \<Rightarrow> (case ev st' sp q of (st'', r) \<Rightarrow> (st'', printed, r)))"

text \<open>
  One call of a public operation in the store: the store and the instance after the call,
  what was printed, and the value returned or the exception raised. The counts and the two
  renderings read the stored array and return values.
\<close>

datatype ('g, 's, 'r) answer =
    View view | Views "view list" | Number nat | Rendered string
  | Spline_object "'s option" | Fetched 'g | Evaluated 'r | Assigned

definition invoke ::
    "('a, 'i, 'g, 's, 'q, 'r) extern \<Rightarrow> ('i, 'q) request \<Rightarrow> 'a store \<times> py_object \<Rightarrow>
     ('a store \<times> py_object) \<times> printed list \<times> (error + ('g, 's, 'r) answer)" where
  "invoke ext req w =
     (case w of
        (st, self) \<Rightarrow>
          (case req of
             Get_timestamps \<Rightarrow> ((st, self), [], lift View (timestamps_view st self))
           | Get_voltages \<Rightarrow> ((st, self), [], lift View (voltages_view st self))
           | Get_voltage_errs \<Rightarrow> ((st, self), [], lift View (voltage_errs_view st self))
           | Num_rows \<Rightarrow> ((st, self), [], Inr (Number (num_rows (snapshot st self))))
           | Num_columns \<Rightarrow> ((st, self), [], Inr (Number (num_columns (snapshot st self))))
           | Len \<Rightarrow> ((st, self), [], Inr (Number (len (snapshot st self))))
           | Getitem index \<Rightarrow>
               (case np_index ext st (data_ref self) index of
                  (st', r) \<Rightarrow> ((st', self), [], lift Fetched r))
           | Iter \<Rightarrow>
               (case iter_views st self of
                  (als, None) \<Rightarrow> ((st, self), [], Inr (Views als))
                | (als, Some e) \<Rightarrow> ((st, self), [], Inl e))
           | Call q \<Rightarrow>
               (case call_in (scipy_spline ext) (scipy_eval ext) st self q of
                  (st', printed, r) \<Rightarrow> ((st', self), printed, lift Evaluated r))
           | Repr \<Rightarrow> ((st, self), [], lift Rendered (repr (format_plain ext) (snapshot st self)))
           | Str \<Rightarrow>
               ((st, self), [],
                lift Rendered (str (format_1f ext) (format_2f ext) (snapshot st self)))
           | Spline \<Rightarrow>
               (case spline_in (scipy_spline ext) st self of
                  (st', printed, r) \<Rightarrow> ((st', self), printed, lift Spline_object r))))"

text \<open>
  What happens to an instance in its lifetime: calls of its public operations, and
  assignments that its caller makes through views.
\<close>

datatype ('a, 'i, 'q) action = Public "('i, 'q) request" | Caller_assign view nat 'a

definition act ::
    "('a, 'i, 'g, 's, 'q, 'r) extern \<Rightarrow> ('a, 'i, 'q) action \<Rightarrow> 'a store \<times> py_object \<Rightarrow>
     ('a store \<times> py_object) \<times> printed list \<times> (error + ('g, 's, 'r) answer)" where
  "act ext a w =
     (case a of
        Public req \<Rightarrow> invoke ext req w
      | Caller_assign al j x \<Rightarrow>
          (case w of
             (st, self) \<Rightarrow>
               (case assign_through st al j x of
                  Inl e \<Rightarrow> ((st, self), [], Inl e)
                | Inr st' \<Rightarrow> ((st', self), [], Inr Assigned))))"

fun run ::
    "('a, 'i, 'g, 's, 'q, 'r) extern \<Rightarrow> ('a, 'i, 'q) action list \<Rightarrow> 'a store \<times> py_object \<Rightarrow>
     ('a store \<times> py_object) \<times> (printed list \<times> (error + ('g, 's, 'r) answer)) list" where
  "run ext [] w = (w, [])"
| "run ext (a # as) w =
     (case act ext a w of
        (w', res) \<Rightarrow> (case run ext as w' of (w'', ress) \<Rightarrow> (w'', res # ress)))"

definition is_public :: "('a, 'i, 'q) action \<Rightarrow> bool" where
  "is_public a = (case a of Public _ \<Rightarrow> True | Caller_assign _ _ _ \<Rightarrow> False)"

text \<open>
  A library function that writes to no array that was there when it was called: it may
  make new ones. This is what numpy's indexing and scipy's spline do with their arguments.
\<close>

definition keeps :: "'a store \<Rightarrow> 'a store \<Rightarrow> bool" where
  "keeps st st' =
     (next_free st \<le> next_free st' \<and> (\<forall>a<next_free st. buffer st' a = buffer st a))"

definition reads_only :: "('a, 'i, 'g, 's, 'q, 'r) extern \<Rightarrow> bool" where
  "reads_only ext =
     ((\<forall>st a i. keeps st (fst (np_index ext st a i))) \<and>
      (\<forall>st x y. keeps st (fst (scipy_spline ext st x y))) \<and>
      (\<forall>st sp q. keeps st (fst (scipy_eval ext st sp q))))"

text \<open>
  A store with no array in it, and library functions to run examples with: indexing by a
  row number, a spline that copies the two views into a new array, an evaluation that
  returns the query.
\<close>

definition store_empty :: "'a store" where
  "store_empty = \<lparr>buffer = (\<lambda>_. \<lparr>cells = [], shape1 = 0\<rparr>), next_free = 0\<rparr>"

definition extern_example :: "(int, nat, int list, addr, int, int) extern" where
  "extern_example =
     \<lparr>np_index = (\<lambda>st a i. (st, row (buffer st a) i)),
      format_plain = (\<lambda>x. ''x''), format_1f = (\<lambda>x. ''x''), format_2f = (\<lambda>x. ''x''),
      scipy_spline = (\<lambda>st x y.
         (case alloc \<lparr>cells = [deref st x, deref st y], shape1 = length (deref st x)\<rparr> st of
            (st', a) \<Rightarrow> (st', Inr a))),
      scipy_eval = (\<lambda>st sp q. (st, Inr q))\<rparr>"

text \<open>The three lists of a state of the loop of \<open>from_file\<close>, without what was printed.\<close>

definition seqs :: "'a acc \<Rightarrow> 'a list \<times> 'a list \<times> 'a list" where
  "seqs s = (acc_t s, acc_v s, acc_dv s)"

section \<open>Properties\<close>

subsection \<open>The constructor\<close>

lemma init_None:
  "VoltageData_init ts vs None =
     (if length ts = length vs
      then Inr \<lparr>data = \<lparr>cells = map2 (\<lambda>a b. [a, b]) ts vs, shape1 = 2\<rparr>\<rparr>
      else Inl ValueError)"
  by (simp add: VoltageData_init_def column_stack_1d_def)

lemma init_Some:
  "VoltageData_init ts vs (Some es) =
     (if length ts = length vs \<and> length vs = length es
      then Inr \<lparr>data = \<lparr>cells = map2 (\<lambda>r x. r @ [x]) (map2 (\<lambda>a b. [a, b]) ts vs) es,
                       shape1 = 3\<rparr>\<rparr>
      else Inl ValueError)"
  by (simp add: VoltageData_init_def column_stack_1d_def column_stack_2d_def shape0_def)

lemma init_shape:
  assumes "VoltageData_init ts vs es = Inr self"
  shows "length vs = length ts"
    and "num_rows self = length ts"
    and "num_columns self = (case es of None \<Rightarrow> 2 | Some _ \<Rightarrow> 3)"
    and "list_all (\<lambda>r. length r = num_columns self) (cells (data self))"
  using assms
  by (cases es; auto simp: init_None init_Some num_rows_def num_columns_def shape0_def list_all_iff
        split: if_splits dest!: set_zip_leftD)+

lemma init_cells:
  assumes "VoltageData_init ts vs es = Inr self" and "i < length ts"
  shows "cells (data self) ! i = [ts ! i, vs ! i] @ (case es of None \<Rightarrow> [] | Some e \<Rightarrow> [e ! i])"
  using assms
  by (cases es) (auto simp: init_None init_Some split: if_splits)

subsection \<open>The loop of \<open>from_file\<close>\<close>

lemma split_on_not_Nil: "split_on sep s \<noteq> []"
  by (induction s) (auto split: list.splits)

lemma third_parsed_time_value: "third_parsed pf l \<Longrightarrow> time_value_parsed pf l"
  by (auto simp: third_parsed_def time_value_parsed_def split: list.splits)

text \<open>One line adds one entry to \<open>t\<close> and to \<open>v\<close>, or none; and one entry to \<open>dv\<close>, or none.\<close>

lemma read_line_acc_t:
  "length (acc_t (read_line pf i l s)) =
     length (acc_t s) + (if time_value_parsed pf l then 1 else 0)"
  by (auto simp: read_line_def time_value_parsed_def Let_def split: list.splits option.splits)

lemma read_line_acc_v:
  "length (acc_v (read_line pf i l s)) =
     length (acc_v s) + (if time_value_parsed pf l then 1 else 0)"
  by (auto simp: read_line_def time_value_parsed_def Let_def split: list.splits option.splits)

lemma read_line_acc_dv:
  "length (acc_dv (read_line pf i l s)) =
     length (acc_dv s) + (if third_parsed pf l then 1 else 0)"
  by (auto simp: read_line_def third_parsed_def Let_def split: list.splits option.splits)

lemma read_lines_acc_t:
  "length (acc_t (read_lines pf i ls s)) =
     length (acc_t s) + length (filter (time_value_parsed pf) ls)"
  by (induction ls arbitrary: i s) (simp_all add: read_line_acc_t)

lemma read_lines_acc_v:
  "length (acc_v (read_lines pf i ls s)) =
     length (acc_v s) + length (filter (time_value_parsed pf) ls)"
  by (induction ls arbitrary: i s) (simp_all add: read_line_acc_v)

lemma read_lines_acc_dv:
  "length (acc_dv (read_lines pf i ls s)) =
     length (acc_dv s) + length (filter (third_parsed pf) ls)"
  by (induction ls arbitrary: i s) (simp_all add: read_line_acc_dv)

lemma read_lines_append:
  "read_lines pf i (xs @ ys) s = read_lines pf (i + length xs) ys (read_lines pf i xs s)"
  by (induction xs arbitrary: i s) simp_all

text \<open>The three lists do not depend on the line numbers nor on what was printed.\<close>

lemma read_line_seqs:
  "seqs s = seqs s' \<Longrightarrow> seqs (read_line pf i l s) = seqs (read_line pf j l s')"
  by (auto simp: seqs_def read_line_def Let_def split: list.splits option.splits)

lemma read_lines_seqs:
  "seqs s = seqs s' \<Longrightarrow> seqs (read_lines pf i ls s) = seqs (read_lines pf j ls s')"
proof (induction ls arbitrary: i j s s')
  case Nil
  then show ?case by simp
next
  case (Cons l ls)
  from Cons.prems have "seqs (read_line pf i l s) = seqs (read_line pf j l s')"
    by (rule read_line_seqs)
  then show ?case
    by (simp add: Cons.IH)
qed

text \<open>What is printed stays printed, and line \<open>i\<close> prints nothing but a \<open>Line_error i\<close>.\<close>

lemma read_line_out:
  "p \<in> set (acc_out (read_line pf i l s)) \<Longrightarrow>
     p \<in> set (acc_out s) \<or> (\<exists>f. p = Line_error i f)"
  by (auto simp: read_line_def Let_def split: list.splits option.splits if_splits)

lemma read_line_out_mono:
  "p \<in> set (acc_out s) \<Longrightarrow> p \<in> set (acc_out (read_line pf i l s))"
  by (auto simp: read_line_def Let_def split: list.splits option.splits)

lemma read_lines_out:
  "p \<in> set (acc_out (read_lines pf i ls s)) \<Longrightarrow>
     p \<in> set (acc_out s) \<or> (\<exists>j f. p = Line_error j f \<and> i \<le> j \<and> j < i + length ls)"
proof (induction ls arbitrary: i s)
  case Nil
  then show ?case by simp
next
  case (Cons l ls)
  from Cons.prems have "p \<in> set (acc_out (read_lines pf (Suc i) ls (read_line pf i l s)))"
    by simp
  from Cons.IH [OF this] show ?case
  proof
    assume "p \<in> set (acc_out (read_line pf i l s))"
    from read_line_out [OF this] show ?thesis
      by auto
  next
    assume "\<exists>j f. p = Line_error j f \<and> Suc i \<le> j \<and> j < Suc i + length ls"
    then show ?thesis
      by auto
  qed
qed

lemma read_lines_out_mono:
  "p \<in> set (acc_out s) \<Longrightarrow> p \<in> set (acc_out (read_lines pf i ls s))"
  by (induction ls arbitrary: i s) (simp_all add: read_line_out_mono)

text \<open>
  What \<open>from_file\<close> returns depends on the three lists only; a line that leaves them as
  they are could as well not be in the file.
\<close>

lemma from_file_snd_cong:
  "seqs (read_lines pf 0 f1 \<lparr>acc_t = [], acc_v = [], acc_dv = [], acc_out = []\<rparr>) =
   seqs (read_lines pf 0 f2 \<lparr>acc_t = [], acc_v = [], acc_dv = [], acc_out = []\<rparr>) \<Longrightarrow>
   snd (from_file pf f1) = snd (from_file pf f2)"
  by (simp add: from_file_def Let_def seqs_def)

lemma from_file_skip:
  assumes "\<And>s. seqs (read_line pf (length pre) line s) = seqs s"
  shows "snd (from_file pf (pre @ line # post)) = snd (from_file pf (pre @ post))"
proof (rule from_file_snd_cong)
  let ?s0 = "\<lparr>acc_t = [], acc_v = [], acc_dv = [], acc_out = []\<rparr> :: 'a acc"
  let ?s1 = "read_lines pf 0 pre ?s0"
  have "seqs (read_lines pf 0 (pre @ line # post) ?s0) =
        seqs (read_lines pf (Suc (length pre)) post (read_line pf (length pre) line ?s1))"
    by (simp add: read_lines_append)
  also have "\<dots> = seqs (read_lines pf (length pre) post ?s1)"
    by (rule read_lines_seqs) (rule assms)
  also have "\<dots> = seqs (read_lines pf 0 (pre @ post) ?s0)"
    by (simp add: read_lines_append)
  finally show "seqs (read_lines pf 0 (pre @ line # post) ?s0) = seqs (read_lines pf 0 (pre @ post) ?s0)" .
qed

lemma from_file_printed:
  assumes "\<And>s. p \<in> set (acc_out (read_line pf (length pre) line s))"
  shows "p \<in> set (fst (from_file pf (pre @ line # post)))"
  by (simp add: from_file_def Let_def read_lines_append read_lines_out_mono assms)

lemma from_file_silent:
  assumes "\<And>s. read_line pf (length pre) line s = s"
  shows "Line_error (length pre) f \<notin> set (fst (from_file pf (pre @ line # post)))"
proof
  let ?s0 = "\<lparr>acc_t = [], acc_v = [], acc_dv = [], acc_out = []\<rparr> :: 'a acc"
  let ?s1 = "read_lines pf 0 pre ?s0"
  assume "Line_error (length pre) f \<in> set (fst (from_file pf (pre @ line # post)))"
  then have "Line_error (length pre) f \<in> set (acc_out (read_lines pf (Suc (length pre)) post ?s1))"
    by (simp add: from_file_def Let_def read_lines_append assms)
  from read_lines_out [OF this] have "Line_error (length pre) f \<in> set (acc_out ?s1)"
    by auto
  from read_lines_out [OF this] show False
    by auto
qed

lemma filter_length_less:
  assumes "\<And>x. P x \<Longrightarrow> Q x" and "y \<in> set xs" and "Q y" and "\<not> P y"
  shows "length (filter P xs) < length (filter Q xs)"
  using assms(2)
proof (induction xs)
  case Nil
  then show ?case by simp
next
  case (Cons x xs)
  have le: "length (filter P xs) \<le> length (filter Q xs)"
    by (induction xs) (auto dest: assms(1))
  show ?case
  proof (cases "y = x")
    case True
    with le assms(3,4) show ?thesis by simp
  next
    case False
    with Cons have "length (filter P xs) < length (filter Q xs)" by simp
    then show ?thesis by (auto dest: assms(1))
  qed
qed

text \<open>When \<open>from_file\<close> returns an instance, with three columns and with two.\<close>

lemma from_file_all_third:
  assumes "l \<in> set file" and "third_parsed pf l"
    and "\<forall>l \<in> set file. time_value_parsed pf l \<longrightarrow> third_parsed pf l"
  shows "\<exists>self. snd (from_file pf file) = Inr self \<and> num_columns self = 3"
proof -
  let ?s = "read_lines pf 0 file \<lparr>acc_t = [], acc_v = [], acc_dv = [], acc_out = []\<rparr>"
  have "filter (third_parsed pf) file = filter (time_value_parsed pf) file"
    using assms(3) by (intro filter_cong) (auto dest: third_parsed_time_value)
  then have len: "length (acc_dv ?s) = length (acc_v ?s)" "length (acc_t ?s) = length (acc_v ?s)"
    by (simp_all add: read_lines_acc_dv read_lines_acc_v read_lines_acc_t)
  have some: "acc_dv ?s \<noteq> []"
    using assms(1,2) read_lines_acc_dv [of pf 0 "file" "\<lparr>acc_t = [], acc_v = [], acc_dv = [], acc_out = []\<rparr>"]
    by (auto simp: filter_empty_conv)
  from len obtain d where
    init: "VoltageData_init (acc_t ?s) (acc_v ?s) (Some (acc_dv ?s)) = Inr d" and "shape1 (data d) = 3"
    by (simp add: init_Some)
  with some show ?thesis
    by (simp add: from_file_def Let_def num_columns_def)
qed

lemma from_file_no_third:
  assumes "\<not> (\<exists>l \<in> set file. third_parsed pf l)"
  shows "\<exists>self. snd (from_file pf file) = Inr self \<and> num_columns self = 2"
proof -
  let ?s = "read_lines pf 0 file \<lparr>acc_t = [], acc_v = [], acc_dv = [], acc_out = []\<rparr>"
  have none: "length (acc_dv ?s) = 0"
    using assms by (auto simp: read_lines_acc_dv filter_empty_conv)
  have "length (acc_t ?s) = length (acc_v ?s)"
    by (simp add: read_lines_acc_v read_lines_acc_t)
  with none show ?thesis
    by (simp add: from_file_def Let_def init_None num_columns_def)
qed

subsection \<open>Iteration and calls\<close>

lemma iter_rows_in_range:
  "list_all (\<lambda>i. i < shape0 a) js \<Longrightarrow> iter_rows a js = (map (\<lambda>i. cells a ! i) js, None)"
  by (induction js) (simp_all add: row_def)

lemma iter_all: "iter self = (cells (data self), None)"
proof -
  have "list_all (\<lambda>i. i < shape0 (data self)) [0..<len self]"
    by (simp add: list_all_iff len_def num_rows_def)
  then have "iter self = (map (\<lambda>i. cells (data self) ! i) [0..<len self], None)"
    unfolding iter_def by (rule iter_rows_in_range)
  then show ?thesis
    by (simp add: len_def num_rows_def shape0_def map_nth)
qed

text \<open>With fewer than four rows, \<open>spline\<close> returns \<open>None\<close>, which \<open>__call__\<close> then calls.\<close>

lemma call_few:
  "num_rows self < 4 \<Longrightarrow> call mk ev self q = ([Insufficient_points], Inl TypeError)"
  by (simp add: call_def spline_def len_def)

subsection \<open>The store\<close>

text \<open>
  A library function that only reads leaves the stored array and the allocation of the
  instance as they are; so do \<open>spline\<close> and \<open>__call__\<close>, which call such functions, and
  so does every public operation.
\<close>

lemma keeps_refl: "keeps st st"
  by (simp add: keeps_def)

lemma keeps_trans: "keeps st st' \<Longrightarrow> keeps st' st'' \<Longrightarrow> keeps st st''"
  by (auto simp: keeps_def)

lemma keeps_table:
  "keeps st st' \<Longrightarrow> data_ref self < next_free st \<Longrightarrow>
     table st' self = table st self \<and> data_ref self < next_free st'"
  by (auto simp: keeps_def table_def)

lemma new_table:
  assumes "VoltageData_new st0 ts vs es = (st, Inr self)"
  shows "data_ref self < next_free st"
    and "VoltageData_init ts vs es = Inr (snapshot st self)"
  using assms
  by (auto simp: VoltageData_new_def alloc_def snapshot_def table_def split: sum.splits)

lemma spline_in_keeps:
  assumes "\<And>s x y. keeps s (fst (mk s x y))"
  shows "keeps st (fst (spline_in mk st self))"
proof (cases "len (snapshot st self) > 3")
  case False
  then show ?thesis
    by (simp add: spline_in_def keeps_refl)
next
  case True
  show ?thesis
  proof (cases "timestamps_view st self")
    case (Inl e)
    with True show ?thesis by (simp add: spline_in_def keeps_refl)
  next
    case x: (Inr x)
    show ?thesis
    proof (cases "voltages_view st self")
      case (Inl e)
      with True x show ?thesis by (simp add: spline_in_def keeps_refl)
    next
      case y: (Inr y)
      have "keeps st (fst (mk st x y))" by (rule assms)
      with True x y show ?thesis
        by (cases "mk st x y") (auto simp: spline_in_def split: sum.splits)
    qed
  qed
qed

lemma call_in_keeps:
  assumes mk: "\<And>s x y. keeps s (fst (mk s x y))" and ev: "\<And>s sp q. keeps s (fst (ev s sp q))"
  shows "keeps st (fst (call_in mk ev st self q))"
proof -
  obtain st' printed r where sp: "spline_in mk st self = (st', printed, r)"
    by (cases "spline_in mk st self") auto
  from spline_in_keeps [of mk st self] mk sp have k: "keeps st st'"
    by simp
  show ?thesis
  proof (cases r)
    case (Inl e)
    with sp k show ?thesis by (simp add: call_in_def)
  next
    case (Inr so)
    show ?thesis
    proof (cases so)
      case None
      with Inr sp k show ?thesis by (simp add: call_in_def)
    next
      case (Some s)
      have "keeps st' (fst (ev st' s q))" by (rule ev)
      with k have "keeps st (fst (ev st' s q))" by (rule keeps_trans)
      with Some Inr sp show ?thesis
        by (cases "ev st' s q") (simp add: call_in_def)
    qed
  qed
qed

lemma invoke_keeps:
  assumes "reads_only ext"
  shows "keeps st (fst (fst (invoke ext req (st, self))))"
    and "snd (fst (invoke ext req (st, self))) = self"
proof -
  from assms have ix: "\<And>s a i. keeps s (fst (np_index ext s a i))"
    and mk: "\<And>s x y. keeps s (fst (scipy_spline ext s x y))"
    and ev: "\<And>s sp q. keeps s (fst (scipy_eval ext s sp q))"
    by (simp_all add: reads_only_def)
  show "keeps st (fst (fst (invoke ext req (st, self))))"
  proof (cases req)
    case (Getitem index)
    with ix [of st "data_ref self" index] show ?thesis
      by (cases "np_index ext st (data_ref self) index") (simp add: invoke_def)
  next
    case (Call q)
    with call_in_keeps [of "scipy_spline ext" "scipy_eval ext" st self q] mk ev show ?thesis
      by (cases "call_in (scipy_spline ext) (scipy_eval ext) st self q") (simp add: invoke_def)
  next
    case Spline
    with spline_in_keeps [of "scipy_spline ext" st self] mk show ?thesis
      by (cases "spline_in (scipy_spline ext) st self") (simp add: invoke_def)
  next
    case Iter
    then show ?thesis
      by (cases "iter_views st self") (auto simp: invoke_def keeps_refl split: option.splits)
  qed (simp_all add: invoke_def keeps_refl)
  show "snd (fst (invoke ext req (st, self))) = self"
    by (cases req) (auto simp: invoke_def split: prod.splits option.splits)
qed

lemma assign_through_shape:
  assumes "assign_through st al j x = Inr st'"
  shows "next_free st' = next_free st"
    and "shape1 (buffer st' a) = shape1 (buffer st a)"
    and "shape0 (buffer st' a) = shape0 (buffer st a)"
  using assms
  by (auto simp: assign_through_def Let_def shape0_def split: view.splits if_splits)

text \<open>What a step keeps: the reference, the allocation, the shape; a public step the table.\<close>

lemma act_step:
  assumes "reads_only ext" and "data_ref self < next_free st"
    and "act ext a (st, self) = ((st', self'), res)"
  shows "self' = self" and "data_ref self < next_free st'"
    and "shape1 (table st' self) = shape1 (table st self)"
    and "shape0 (table st' self) = shape0 (table st self)"
    and "is_public a \<Longrightarrow> table st' self = table st self"
proof -
  show "self' = self"
  proof (cases a)
    case (Public req)
    with assms(3) have "self' = snd (fst (invoke ext req (st, self)))"
      by (simp add: act_def)
    with invoke_keeps(2) [OF assms(1), of req st self] show ?thesis
      by simp
  next
    case (Caller_assign al j x)
    with assms(3) show ?thesis
      by (auto simp: act_def split: sum.splits)
  qed
  have "data_ref self < next_free st' \<and>
        shape1 (table st' self) = shape1 (table st self) \<and>
        shape0 (table st' self) = shape0 (table st self) \<and>
        (is_public a \<longrightarrow> table st' self = table st self)"
  proof (cases a)
    case (Public req)
    with assms(3) have "st' = fst (fst (invoke ext req (st, self)))"
      by (simp add: act_def)
    with invoke_keeps(1) [OF assms(1), of st req self] have "keeps st st'"
      by simp
    from keeps_table [OF this assms(2)] show ?thesis
      by simp
  next
    case (Caller_assign al j x)
    show ?thesis
    proof (cases "assign_through st al j x")
      case (Inl e)
      with Caller_assign assms(2,3) show ?thesis
        by (simp add: act_def is_public_def)
    next
      case (Inr st'')
      with Caller_assign assms(3) have "st'' = st'"
        by (simp add: act_def)
      with Inr assign_through_shape [of st al j x st'] assms(2) Caller_assign show ?thesis
        by (simp add: table_def is_public_def)
    qed
  qed
  then show "data_ref self < next_free st'"
    and "shape1 (table st' self) = shape1 (table st self)"
    and "shape0 (table st' self) = shape0 (table st self)"
    and "is_public a \<Longrightarrow> table st' self = table st self"
    by simp_all
qed

lemma run_keeps:
  assumes "reads_only ext"
  shows "data_ref self < next_free st \<Longrightarrow>
     snd (fst (run ext as (st, self))) = self \<and>
     shape1 (table (fst (fst (run ext as (st, self)))) self) = shape1 (table st self) \<and>
     shape0 (table (fst (fst (run ext as (st, self)))) self) = shape0 (table st self) \<and>
     (list_all is_public as \<longrightarrow> table (fst (fst (run ext as (st, self)))) self = table st self)"
proof (induction as arbitrary: st)
  case Nil
  show ?case by simp
next
  case (Cons a as)
  obtain st' self' res where step: "act ext a (st, self) = ((st', self'), res)"
    by (cases "act ext a (st, self)") auto
  note k = act_step [OF assms Cons.prems step]
  from Cons.IH [OF k(2)] k step show ?case
    by (cases "run ext as (st', self)") auto
qed

text \<open>The example library only reads.\<close>

lemma alloc_keeps: "keeps st (fst (alloc a st))"
  by (simp add: alloc_def keeps_def)

lemma extern_example_reads_only: "reads_only extern_example"
  by (simp add: reads_only_def extern_example_def keeps_refl alloc_keeps split: prod.splits)
    (simp add: alloc_def keeps_def)

text \<open>
  The views that the operations return in the store show the values that the operations
  return in the sections above.
\<close>

lemma column_view_deref:
  "lift (deref st) (column_view st self k) = column (data (snapshot st self)) k"
  by (simp add: lift_def column_view_def column_def deref_def snapshot_def table_def)

lemma timestamps_view_deref:
  "lift (deref st) (timestamps_view st self) = timestamps (snapshot st self)"
  by (simp add: timestamps_view_def timestamps_def column_view_deref)

lemma voltages_view_deref:
  "lift (deref st) (voltages_view st self) = voltages (snapshot st self)"
  by (simp add: voltages_view_def voltages_def column_view_deref)

lemma voltage_errs_view_deref:
  "lift (deref st) (voltage_errs_view st self) = voltage_errs (snapshot st self)"
  by (simp add: lift_def voltage_errs_view_def voltage_errs_def column_view_def column_def
      deref_def snapshot_def table_def)

lemma iter_row_views_in_range:
  "list_all (\<lambda>i. i < shape0 (table st self)) js \<Longrightarrow>
     iter_row_views st self js = (map (Row_of (data_ref self)) js, None)"
  by (induction js) (simp_all add: row_view_def)

lemma iter_views_deref:
  "iter_views st self = (map (Row_of (data_ref self)) [0..<num_rows (snapshot st self)], None)"
  "map (deref st) (fst (iter_views st self)) = fst (iter (snapshot st self))"
proof -
  have "list_all (\<lambda>i. i < shape0 (table st self)) [0..<len (snapshot st self)]"
    by (simp add: list_all_iff len_def num_rows_def snapshot_def)
  then show a: "iter_views st self =
      (map (Row_of (data_ref self)) [0..<num_rows (snapshot st self)], None)"
    unfolding iter_views_def by (simp add: iter_row_views_in_range len_def)
  show "map (deref st) (fst (iter_views st self)) = fst (iter (snapshot st self))"
    by (simp add: a iter_all deref_def o_def num_rows_def snapshot_def shape0_def table_def map_nth)
qed

text \<open>
  The view that \<open>timestamps\<close> returns on a new instance shows the times it was built
  from, and an assignment through a column view replaces one entry of that column.
\<close>

lemma new_timestamps:
  assumes "VoltageData_new st0 ts vs es = (st, Inr self)"
  shows "deref st (Column_of (data_ref self) 0) = ts"
    and "0 < shape1 (table st self)"
    and "shape0 (table st self) = length ts"
    and "list_all (\<lambda>r. 0 < length r) (cells (table st self))"
proof -
  note init = new_table(2) [OF assms]
  have len: "length (cells (table st self)) = length ts"
    using init_shape(2) [OF init] by (simp add: num_rows_def shape0_def snapshot_def)
  have "map (\<lambda>r. r ! 0) (cells (table st self)) = ts"
    using init_cells [OF init] len
    by (intro nth_equalityI) (simp_all add: snapshot_def)
  then show "deref st (Column_of (data_ref self) 0) = ts"
    by (simp add: deref_def table_def)
  show "0 < shape1 (table st self)"
    using init_shape(3) [OF init] by (cases es) (simp_all add: num_columns_def snapshot_def)
  show "shape0 (table st self) = length ts"
    using len by (simp add: shape0_def)
  show "list_all (\<lambda>r. 0 < length r) (cells (table st self))"
    using init_cells [OF init] len
    by (auto simp: list_all_length snapshot_def)
qed

lemma assign_column_deref:
  assumes "j < shape0 (buffer st a)" and "list_all (\<lambda>r. k < length r) (cells (buffer st a))"
  shows "\<exists>st'. assign_through st (Column_of a k) j x = Inr st' \<and>
           deref st' (Column_of a k) = (deref st (Column_of a k))[j := x]"
  using assms
  by (auto simp: assign_through_def Let_def deref_def shape0_def map_update list_all_length)

text \<open>
  The views do share the memory of the stored array: an assignment through the view that
  \<open>timestamps\<close> returned, by the caller or by a library function that was handed the view,
  changes the stored array.
\<close>

lemma caller_assignment_reaches_table:
  "table (fst (fst (run extern_example
       [Public Get_timestamps, Caller_assign (Column_of 0 0) 0 9]
       (fst (VoltageData_new store_empty [1, 2, 3, 4] [5, 6, 7, 8] None), \<lparr>data_ref = 0\<rparr>))))
     \<lparr>data_ref = 0\<rparr> = \<lparr>cells = [[9, 5], [2, 6], [3, 7], [4, 8]], shape1 = 2\<rparr>"
  by (simp add: act_def invoke_def assign_through_def VoltageData_new_def init_None alloc_def
      store_empty_def table_def shape0_def Let_def)

lemma library_assignment_reaches_table:
  "table (fst (fst (run
       (extern_example\<lparr>scipy_spline := (\<lambda>st x y.
          (case assign_through st x 0 9 of Inl e \<Rightarrow> (st, Inl e) | Inr st' \<Rightarrow> (st', Inr 0)))\<rparr>)
       [Public Spline]
       (fst (VoltageData_new store_empty [1, 2, 3, 4] [5, 6, 7, 8] None), \<lparr>data_ref = 0\<rparr>))))
     \<lparr>data_ref = 0\<rparr> = \<lparr>cells = [[9, 5], [2, 6], [3, 7], [4, 8]], shape1 = 2\<rparr>"
  by (simp add: act_def invoke_def spline_in_def timestamps_view_def voltages_view_def
      column_view_def len_def num_rows_def snapshot_def extern_example_def
      assign_through_def VoltageData_new_def init_None alloc_def
      store_empty_def table_def shape0_def Let_def)

section \<open>The specification, statement by statement\<close>

text \<open>
  C1. The specification, as the docstring of \<open>from_file\<close>, has a line whose fields 0 and
  1 are floats and whose field 2 is there but is not a float discarded whole. The source
  appends the time and the value before it converts field 2, so they stay: on the one line
  \<open>1<TAB>2<TAB>abc\<close>, \<open>from_file\<close> prints the error of line 0 and returns an instance
  with the row \<open>(1, 2)\<close>.
\<close>

theorem from_file_bad_third_keeps_time_value:
  "from_file float_digits [''1'' @ [TAB] @ ''2'' @ [TAB] @ ''abc'' @ [NL]] =
     ([Line_error 0 ''abc''], Inr \<lparr>data = \<lparr>cells = [[1, 2]], shape1 = 2\<rparr>\<rparr>)"
  by code_simp

text \<open>
  C2. The specification has \<open>__call__\<close> raise nothing on an instance with fewer than
  four rows. The source calls what \<open>spline\<close> returned, which is \<open>None\<close> then: on the
  instance built from three points, \<open>__call__\<close> prints the message of \<open>spline\<close> and
  raises \<open>TypeError\<close>, whatever scipy's functions are and whatever the query is.
\<close>

theorem call_three_points_raises:
  "VoltageData_init [1, 2, 3 :: int] [1, 2, 3] None =
     Inr \<lparr>data = \<lparr>cells = [[1, 1], [2, 2], [3, 3]], shape1 = 2\<rparr>\<rparr> \<and>
   call mk ev \<lparr>data = \<lparr>cells = [[1, 1], [2, 2], [3, 3 :: int]], shape1 = 2\<rparr>\<rparr> q =
     ([Insufficient_points], Inl TypeError)"
  by (simp add: init_None call_def spline_def len_def num_rows_def shape0_def)

text \<open>
  C3, as the source has it. Take a line that is not a comment, at any place in a file. When
  \<open>float()\<close> raises on its time field, or on its value field after the time field was
  converted, \<open>from_file\<close> prints the error with the number of the line and the field, and
  returns what it returns for the file without that line. When the time field is a float
  and there is no value field, it also returns what it returns for the file without that
  line, but prints nothing for the line.
\<close>

theorem malformed_time_or_value_line:
  assumes "\<not> startswith_hash line" and "line_values line = f0 # r"
  shows
    "(pf f0 = None \<longrightarrow>
        Line_error (length pre) f0 \<in> set (fst (from_file pf (pre @ line # post))) \<and>
        snd (from_file pf (pre @ line # post)) = snd (from_file pf (pre @ post))) \<and>
     (pf f0 \<noteq> None \<and> r = f1 # r' \<and> pf f1 = None \<longrightarrow>
        Line_error (length pre) f1 \<in> set (fst (from_file pf (pre @ line # post))) \<and>
        snd (from_file pf (pre @ line # post)) = snd (from_file pf (pre @ post))) \<and>
     (pf f0 \<noteq> None \<and> r = [] \<longrightarrow>
        (\<forall>f. Line_error (length pre) f \<notin> set (fst (from_file pf (pre @ line # post)))) \<and>
        snd (from_file pf (pre @ line # post)) = snd (from_file pf (pre @ post)))"
proof (intro conjI impI)
  assume a: "pf f0 = None"
  with assms have step: "\<And>s. read_line pf (length pre) line s = s\<lparr>acc_out := acc_out s @ [Line_error (length pre) f0]\<rparr>"
    by (simp add: read_line_def)
  show "Line_error (length pre) f0 \<in> set (fst (from_file pf (pre @ line # post)))"
    by (rule from_file_printed) (simp add: step)
  show "snd (from_file pf (pre @ line # post)) = snd (from_file pf (pre @ post))"
    by (rule from_file_skip) (simp add: step seqs_def)
next
  assume b: "pf f0 \<noteq> None \<and> r = f1 # r' \<and> pf f1 = None"
  with assms have step: "\<And>s. read_line pf (length pre) line s = s\<lparr>acc_out := acc_out s @ [Line_error (length pre) f1]\<rparr>"
    by (auto simp: read_line_def)
  show "Line_error (length pre) f1 \<in> set (fst (from_file pf (pre @ line # post)))"
    by (rule from_file_printed) (simp add: step)
  show "snd (from_file pf (pre @ line # post)) = snd (from_file pf (pre @ post))"
    by (rule from_file_skip) (simp add: step seqs_def)
next
  assume c: "pf f0 \<noteq> None \<and> r = []"
  with assms have step: "\<And>s. read_line pf (length pre) line s = s"
    by (auto simp: read_line_def)
  show "\<forall>f. Line_error (length pre) f \<notin> set (fst (from_file pf (pre @ line # post)))"
    using from_file_silent [of pf pre line _ post] step by blast
  show "snd (from_file pf (pre @ line # post)) = snd (from_file pf (pre @ post))"
    by (rule from_file_skip) (simp add: step)
qed

theorem malformed_time_or_value_line_witness:
  "Line_error 1 ''abc'' \<in> set (fst (from_file float_digits
      [''5'' @ [TAB] @ ''6'' @ [NL], ''abc'' @ [TAB] @ ''1'' @ [NL], ''7'' @ [TAB] @ ''8'' @ [NL]])) \<and>
   snd (from_file float_digits
      [''5'' @ [TAB] @ ''6'' @ [NL], ''abc'' @ [TAB] @ ''1'' @ [NL], ''7'' @ [TAB] @ ''8'' @ [NL]]) =
     Inr \<lparr>data = \<lparr>cells = [[5, 6], [7, 8]], shape1 = 2\<rparr>\<rparr> \<and>
   Line_error 1 ''x'' \<in> set (fst (from_file float_digits
      [''5'' @ [TAB] @ ''6'' @ [NL], ''1'' @ [TAB] @ ''x'' @ [NL], ''7'' @ [TAB] @ ''8'' @ [NL]])) \<and>
   snd (from_file float_digits
      [''5'' @ [TAB] @ ''6'' @ [NL], ''1'' @ [TAB] @ ''x'' @ [NL], ''7'' @ [TAB] @ ''8'' @ [NL]]) =
     Inr \<lparr>data = \<lparr>cells = [[5, 6], [7, 8]], shape1 = 2\<rparr>\<rparr> \<and>
   Line_error 1 ''1'' \<notin> set (fst (from_file float_digits
      [''5'' @ [TAB] @ ''6'' @ [NL], ''1'' @ [NL], ''7'' @ [TAB] @ ''8'' @ [NL]])) \<and>
   snd (from_file float_digits
      [''5'' @ [TAB] @ ''6'' @ [NL], ''1'' @ [NL], ''7'' @ [TAB] @ ''8'' @ [NL]]) =
     Inr \<lparr>data = \<lparr>cells = [[5, 6], [7, 8]], shape1 = 2\<rparr>\<rparr>"
proof -
  have rest: "snd (from_file float_digits [''5'' @ [TAB] @ ''6'' @ [NL], ''7'' @ [TAB] @ ''8'' @ [NL]]) =
      Inr \<lparr>data = \<lparr>cells = [[5, 6], [7, 8]], shape1 = 2\<rparr>\<rparr>"
    by code_simp
  have a1: "\<not> startswith_hash (''abc'' @ [TAB] @ ''1'' @ [NL])"
    and a2: "line_values (''abc'' @ [TAB] @ ''1'' @ [NL]) = ''abc'' # [''1'']"
    and a3: "float_digits ''abc'' = None"
    by code_simp+
  have b1: "\<not> startswith_hash (''1'' @ [TAB] @ ''x'' @ [NL])"
    and b2: "line_values (''1'' @ [TAB] @ ''x'' @ [NL]) = ''1'' # [''x'']"
    and b3: "float_digits ''1'' \<noteq> None \<and> [''x''] = ''x'' # [] \<and> float_digits ''x'' = None"
    by code_simp+
  have c1: "\<not> startswith_hash (''1'' @ [NL])"
    and c2: "line_values (''1'' @ [NL]) = ''1'' # []"
    and c3: "float_digits ''1'' \<noteq> None \<and> ([] :: string list) = []"
    by code_simp+
  note A = malformed_time_or_value_line [OF a1 a2, where pf = float_digits
      and pre = "[''5'' @ [TAB] @ ''6'' @ [NL]]" and post = "[''7'' @ [TAB] @ ''8'' @ [NL]]"]
  note B = malformed_time_or_value_line [OF b1 b2, where pf = float_digits and ?f1.0 = "''x''"
      and r' = "[]" and pre = "[''5'' @ [TAB] @ ''6'' @ [NL]]"
      and post = "[''7'' @ [TAB] @ ''8'' @ [NL]]"]
  note C = malformed_time_or_value_line [OF c1 c2, where pf = float_digits
      and pre = "[''5'' @ [TAB] @ ''6'' @ [NL]]" and post = "[''7'' @ [TAB] @ ''8'' @ [NL]]"]
  from A a3 rest B b3 C c3 show ?thesis
    by simp
qed

text \<open>
  C3, as the specification has it, fails where the value field is missing: on the one line
  \<open>1\<close>, which is not a comment and has the time field only, \<open>from_file\<close> prints nothing.
\<close>

theorem missing_value_prints_nothing:
  "\<not> startswith_hash (''1'' @ [NL]) \<and> line_values (''1'' @ [NL]) = [''1''] \<and>
   from_file float_digits [''1'' @ [NL]] = ([], Inr \<lparr>data = \<lparr>cells = [], shape1 = 2\<rparr>\<rparr>)"
  by code_simp

text \<open>
  C4. On an instance with two columns \<open>voltage_errs\<close> raises \<open>AttributeError\<close>, and not
  \<open>IndexError\<close>; on an instance with three columns it returns column 2, which has one entry
  for each row.
\<close>

theorem voltage_errs_kind:
  "(num_columns self = 2 \<longrightarrow>
      voltage_errs self =
        Inl (AttributeError ''The optional column 'voltage_errs' is not present.'') \<and>
      voltage_errs self \<noteq> Inl IndexError) \<and>
   (num_columns self = 3 \<longrightarrow>
      (\<exists>c. voltage_errs self = Inr c \<and> length c = num_rows self \<and>
           (\<forall>i<num_rows self. c ! i = cells (data self) ! i ! 2)))"
  by (simp add: voltage_errs_def column_def num_columns_def num_rows_def shape0_def)

theorem voltage_errs_kind_witness:
  "VoltageData_init [1, 2 :: int] [3, 4] None =
     Inr \<lparr>data = \<lparr>cells = [[1, 3], [2, 4]], shape1 = 2\<rparr>\<rparr> \<and>
   voltage_errs \<lparr>data = \<lparr>cells = [[1, 3], [2, 4 :: int]], shape1 = 2\<rparr>\<rparr> =
     Inl (AttributeError ''The optional column 'voltage_errs' is not present.'') \<and>
   VoltageData_init [1, 2 :: int] [3, 4] (Some [5, 6]) =
     Inr \<lparr>data = \<lparr>cells = [[1, 3, 5], [2, 4, 6]], shape1 = 3\<rparr>\<rparr> \<and>
   (\<exists>c. voltage_errs \<lparr>data = \<lparr>cells = [[1, 3, 5], [2, 4, 6 :: int]], shape1 = 3\<rparr>\<rparr> = Inr c \<and>
        length c = 2)"
  using voltage_errs_kind [of "\<lparr>data = \<lparr>cells = [[1, 3], [2, 4 :: int]], shape1 = 2\<rparr>\<rparr>"]
    voltage_errs_kind [of "\<lparr>data = \<lparr>cells = [[1, 3, 5], [2, 4, 6 :: int]], shape1 = 3\<rparr>\<rparr>"]
  by (auto simp: num_columns_def num_rows_def shape0_def init_None init_Some)

text \<open>
  C5. An instance built by the constructor has two or three columns, three exactly when a
  sequence of voltage errors was given; an instance returned by \<open>from_file\<close> has two or
  three columns, three exactly when some line of the file that is not a comment has time,
  value and third field all floats. Both cases occur, in memory and from text: the
  constructor returns an instance with two columns for times and voltages of one length,
  and one with three columns when the errors have that length too; \<open>from_file\<close> returns an
  instance with three columns when some line has the three floats and every line with time
  and value has them, and one with two columns when no line has the three floats.
\<close>

theorem column_count:
  "(VoltageData_init ts vs es = Inr self \<longrightarrow>
      num_columns self \<in> {2, 3} \<and> (num_columns self = 3 \<longleftrightarrow> es \<noteq> None)) \<and>
   (from_file pf file = (printed, Inr self') \<longrightarrow>
      num_columns self' \<in> {2, 3} \<and>
      (num_columns self' = 3 \<longleftrightarrow> (\<exists>l \<in> set file. third_parsed pf l))) \<and>
   (length vs = length ts \<longrightarrow>
      (\<exists>d. VoltageData_init ts vs None = Inr d \<and> num_columns d = 2)) \<and>
   (length vs = length ts \<and> length ve = length ts \<longrightarrow>
      (\<exists>d. VoltageData_init ts vs (Some ve) = Inr d \<and> num_columns d = 3)) \<and>
   ((\<exists>l \<in> set file. third_parsed pf l) \<and>
    (\<forall>l \<in> set file. time_value_parsed pf l \<longrightarrow> third_parsed pf l) \<longrightarrow>
      (\<exists>d. snd (from_file pf file) = Inr d \<and> num_columns d = 3)) \<and>
   (\<not> (\<exists>l \<in> set file. third_parsed pf l) \<longrightarrow>
      (\<exists>d. snd (from_file pf file) = Inr d \<and> num_columns d = 2))"
proof (intro conjI impI)
  assume "VoltageData_init ts vs es = Inr self"
  from init_shape(3) [OF this]
  show "num_columns self \<in> {2, 3}" and "num_columns self = 3 \<longleftrightarrow> es \<noteq> None"
    by (cases es; simp)+
next
  let ?s = "read_lines pf 0 file \<lparr>acc_t = [], acc_v = [], acc_dv = [], acc_out = []\<rparr>"
  assume run: "from_file pf file = (printed, Inr self')"
  have dv: "length (acc_dv ?s) \<noteq> 0 \<longleftrightarrow> (\<exists>l \<in> set file. third_parsed pf l)"
    by (auto simp: read_lines_acc_dv filter_empty_conv)
  from run have cols: "num_columns self' = (if length (acc_dv ?s) \<noteq> 0 then 3 else 2)"
    by (auto simp: from_file_def Let_def split: if_splits dest: init_shape(3))
  from cols show "num_columns self' \<in> {2, 3}"
    by simp
  from cols dv show "num_columns self' = 3 \<longleftrightarrow> (\<exists>l \<in> set file. third_parsed pf l)"
    by (simp split: if_splits)
next
  assume "length vs = length ts"
  then show "\<exists>d. VoltageData_init ts vs None = Inr d \<and> num_columns d = 2"
    by (simp add: init_None num_columns_def)
next
  assume "length vs = length ts \<and> length ve = length ts"
  then show "\<exists>d. VoltageData_init ts vs (Some ve) = Inr d \<and> num_columns d = 3"
    by (simp add: init_Some num_columns_def)
next
  assume "(\<exists>l \<in> set file. third_parsed pf l) \<and>
    (\<forall>l \<in> set file. time_value_parsed pf l \<longrightarrow> third_parsed pf l)"
  then show "\<exists>d. snd (from_file pf file) = Inr d \<and> num_columns d = 3"
    using from_file_all_third [where pf = pf and ?file = "file"] by blast
next
  assume "\<not> (\<exists>l \<in> set file. third_parsed pf l)"
  then show "\<exists>d. snd (from_file pf file) = Inr d \<and> num_columns d = 2"
    by (rule from_file_no_third)
qed

theorem column_count_witness:
  "VoltageData_init [1, 2 :: int] [3, 4] (Some [5, 6]) =
     Inr \<lparr>data = \<lparr>cells = [[1, 3, 5], [2, 4, 6]], shape1 = 3\<rparr>\<rparr> \<and>
   num_columns \<lparr>data = \<lparr>cells = [[1, 3, 5], [2, 4, 6 :: int]], shape1 = 3\<rparr>\<rparr> = 3 \<and>
   VoltageData_init [1, 2 :: int] [3, 4] None =
     Inr \<lparr>data = \<lparr>cells = [[1, 3], [2, 4]], shape1 = 2\<rparr>\<rparr> \<and>
   num_columns \<lparr>data = \<lparr>cells = [[1, 3], [2, 4 :: int]], shape1 = 2\<rparr>\<rparr> = 2 \<and>
   from_file float_digits
     [''# t v dv'' @ [NL], ''1'' @ [TAB] @ ''2'' @ [TAB] @ ''3'' @ [NL], ''abc'' @ [NL],
      ''4'' @ [TAB] @ ''5'' @ [TAB] @ ''6'' @ [NL]] =
     ([Line_error 2 ''abc''], Inr \<lparr>data = \<lparr>cells = [[1, 2, 3], [4, 5, 6]], shape1 = 3\<rparr>\<rparr>) \<and>
   num_columns \<lparr>data = \<lparr>cells = [[1, 2, 3], [4, 5, 6 :: int]], shape1 = 3\<rparr>\<rparr> = 3 \<and>
   (\<exists>l \<in> set [''# t v dv'' @ [NL], ''1'' @ [TAB] @ ''2'' @ [TAB] @ ''3'' @ [NL], ''abc'' @ [NL],
      ''4'' @ [TAB] @ ''5'' @ [TAB] @ ''6'' @ [NL]]. third_parsed float_digits l) \<and>
   from_file float_digits [''1'' @ [TAB] @ ''2'' @ [NL], ''abc'' @ [NL]] =
     ([Line_error 1 ''abc''], Inr \<lparr>data = \<lparr>cells = [[1, 2]], shape1 = 2\<rparr>\<rparr>) \<and>
   num_columns \<lparr>data = \<lparr>cells = [[1, 2 :: int]], shape1 = 2\<rparr>\<rparr> = 2 \<and>
   \<not> (\<exists>l \<in> set [''1'' @ [TAB] @ ''2'' @ [NL], ''abc'' @ [NL]]. third_parsed float_digits l)"
proof -
  let ?three = "[''# t v dv'' @ [NL], ''1'' @ [TAB] @ ''2'' @ [TAB] @ ''3'' @ [NL], ''abc'' @ [NL],
      ''4'' @ [TAB] @ ''5'' @ [TAB] @ ''6'' @ [NL]]"
  let ?two = "[''1'' @ [TAB] @ ''2'' @ [NL], ''abc'' @ [NL]]"
  have mem3: "VoltageData_init [1, 2 :: int] [3, 4] (Some [5, 6]) =
     Inr \<lparr>data = \<lparr>cells = [[1, 3, 5], [2, 4, 6]], shape1 = 3\<rparr>\<rparr>"
    by (simp add: init_Some)
  have mem2: "VoltageData_init [1, 2 :: int] [3, 4] None =
     Inr \<lparr>data = \<lparr>cells = [[1, 3], [2, 4]], shape1 = 2\<rparr>\<rparr>"
    by (simp add: init_None)
  have run3: "from_file float_digits ?three =
     ([Line_error 2 ''abc''], Inr \<lparr>data = \<lparr>cells = [[1, 2, 3], [4, 5, 6]], shape1 = 3\<rparr>\<rparr>)"
    by code_simp
  have run2: "from_file float_digits ?two =
     ([Line_error 1 ''abc''], Inr \<lparr>data = \<lparr>cells = [[1, 2]], shape1 = 2\<rparr>\<rparr>)"
    by code_simp
  have third3: "\<exists>l \<in> set ?three. third_parsed float_digits l"
    and all3: "\<forall>l \<in> set ?three. time_value_parsed float_digits l \<longrightarrow> third_parsed float_digits l"
    and third2: "\<not> (\<exists>l \<in> set ?two. third_parsed float_digits l)"
    by code_simp+
  note A = column_count [where ts = "[1, 2 :: int]" and vs = "[3, 4]" and es = "Some [5, 6]"
      and ve = "[5, 6]"
      and self = "\<lparr>data = \<lparr>cells = [[1, 3, 5], [2, 4, 6]], shape1 = 3\<rparr>\<rparr>"
      and pf = float_digits and ?file = ?three and printed = "[Line_error 2 ''abc'']"
      and self' = "\<lparr>data = \<lparr>cells = [[1, 2, 3], [4, 5, 6]], shape1 = 3\<rparr>\<rparr>"]
  note B = column_count [where ts = "[1, 2 :: int]" and vs = "[3, 4]" and es = None
      and ve = "[5, 6]"
      and self = "\<lparr>data = \<lparr>cells = [[1, 3], [2, 4]], shape1 = 2\<rparr>\<rparr>"
      and pf = float_digits and ?file = ?two and printed = "[Line_error 1 ''abc'']"
      and self' = "\<lparr>data = \<lparr>cells = [[1, 2]], shape1 = 2\<rparr>\<rparr>"]
  from A mem3 run3 third3 all3 have
    "num_columns \<lparr>data = \<lparr>cells = [[1, 3, 5], [2, 4, 6 :: int]], shape1 = 3\<rparr>\<rparr> = 3"
    "num_columns \<lparr>data = \<lparr>cells = [[1, 2, 3], [4, 5, 6 :: int]], shape1 = 3\<rparr>\<rparr> = 3"
    by simp_all
  moreover from B mem2 run2 third2 have
    "num_columns \<lparr>data = \<lparr>cells = [[1, 3], [2, 4 :: int]], shape1 = 2\<rparr>\<rparr> = 2"
    "num_columns \<lparr>data = \<lparr>cells = [[1, 2 :: int]], shape1 = 2\<rparr>\<rparr> = 2"
    by simp_all
  ultimately show ?thesis
    using mem3 mem2 run3 run2 third3 third2 by (intro conjI)
qed


text \<open>
  C6. On an instance with fewer than four rows \<open>spline\<close> prints its message and returns
  \<open>None\<close>: it builds no spline and raises nothing.
\<close>

theorem spline_insufficient_points:
  "num_rows self < 4 \<Longrightarrow> spline mk self = ([Insufficient_points], Inr None)"
  by (simp add: spline_def len_def)

theorem spline_insufficient_points_witness:
  "VoltageData_init [1, 2, 3 :: int] [4, 5, 6] None =
     Inr \<lparr>data = \<lparr>cells = [[1, 4], [2, 5], [3, 6]], shape1 = 2\<rparr>\<rparr> \<and>
   num_rows \<lparr>data = \<lparr>cells = [[1, 4], [2, 5], [3, 6 :: int]], shape1 = 2\<rparr>\<rparr> < 4 \<and>
   spline (\<lambda>x y. Inr (x, y)) \<lparr>data = \<lparr>cells = [[1, 4], [2, 5], [3, 6 :: int]], shape1 = 2\<rparr>\<rparr> =
     ([Insufficient_points], Inr None)"
proof -
  have few: "num_rows \<lparr>data = \<lparr>cells = [[1, 4], [2, 5], [3, 6 :: int]], shape1 = 2\<rparr>\<rparr> < 4"
    by (simp add: num_rows_def shape0_def)
  show ?thesis
    using few spline_insufficient_points [OF few, of "\<lambda>x y. Inr (x, y)"]
    by (simp add: init_None)
qed

text \<open>
  C7. Take an instance built by the constructor in a store, library functions that only
  read, and any sequence of calls of the public operations (the accessors, the counts,
  indexing, iteration, the two renderings, \<open>spline\<close> and \<open>__call__\<close>) and of assignments by
  the caller through views. At the end \<open>_data\<close> refers to the same array, whose number of
  columns is the one it was built with, 2 or 3; and when the sequence has public calls only,
  the stored array is the one the constructor built, entry for entry. The operations do
  hand out the memory of that array: \<open>timestamps\<close> returns a view of its column 0, which
  shows the times, and an assignment by the caller through that view replaces a time in
  the stored array.
\<close>

theorem stored_table_fixed:
  assumes "reads_only ext" and "VoltageData_new st0 ts vs es = (st, Inr self)"
  shows "snd (fst (run ext acts (st, self))) = self \<and>
     num_columns (snapshot (fst (fst (run ext acts (st, self)))) self) = num_columns (snapshot st self) \<and>
     num_columns (snapshot st self) = (case es of None \<Rightarrow> 2 | Some _ \<Rightarrow> 3) \<and>
     (list_all is_public acts \<longrightarrow> table (fst (fst (run ext acts (st, self)))) self = table st self) \<and>
     invoke ext Get_timestamps (st, self) = ((st, self), [], Inr (View (Column_of (data_ref self) 0))) \<and>
     deref st (Column_of (data_ref self) 0) = ts \<and>
     (j < length ts \<longrightarrow>
        (\<exists>st'. act ext (Caller_assign (Column_of (data_ref self) 0) j x) (st, self) =
                 ((st', self), [], Inr Assigned) \<and>
               deref st' (Column_of (data_ref self) 0) = ts[j := x]))"
proof -
  note nt = new_timestamps [OF assms(2)]
  have a: "snd (fst (run ext acts (st, self))) = self \<and>
     num_columns (snapshot (fst (fst (run ext acts (st, self)))) self) = num_columns (snapshot st self) \<and>
     num_columns (snapshot st self) = (case es of None \<Rightarrow> 2 | Some _ \<Rightarrow> 3) \<and>
     (list_all is_public acts \<longrightarrow> table (fst (fst (run ext acts (st, self)))) self = table st self)"
    using run_keeps [OF assms(1) new_table(1) [OF assms(2)], of acts]
      init_shape(3) [OF new_table(2) [OF assms(2)]]
    by (simp add: num_columns_def snapshot_def)
  have b: "invoke ext Get_timestamps (st, self) =
      ((st, self), [], Inr (View (Column_of (data_ref self) 0)))"
    using nt(2) by (simp add: invoke_def timestamps_view_def column_view_def lift_def)
  have c: "j < length ts \<longrightarrow>
        (\<exists>st'. act ext (Caller_assign (Column_of (data_ref self) 0) j x) (st, self) =
                 ((st', self), [], Inr Assigned) \<and>
               deref st' (Column_of (data_ref self) 0) = ts[j := x])"
  proof
    assume "j < length ts"
    with nt(3) have "j < shape0 (buffer st (data_ref self))"
      by (simp add: table_def)
    from assign_column_deref [OF this, of 0 x] nt(4) nt(1) show
      "\<exists>st'. act ext (Caller_assign (Column_of (data_ref self) 0) j x) (st, self) =
                 ((st', self), [], Inr Assigned) \<and>
               deref st' (Column_of (data_ref self) 0) = ts[j := x]"
      by (auto simp: act_def table_def)
  qed
  from a b nt(1) c show ?thesis
    by blast
qed

theorem stored_table_fixed_witness:
  "reads_only extern_example \<and>
   snd (VoltageData_new store_empty [1, 2, 3, 4 :: int] [5, 6, 7, 8] None) = Inr \<lparr>data_ref = 0\<rparr> \<and>
   num_columns (snapshot (fst (fst (run extern_example
       [Public Get_timestamps, Caller_assign (Column_of 0 0) 0 9, Public Spline, Public (Call 0),
        Public (Getitem 0), Public Iter, Public Repr, Public Str, Public Get_voltage_errs]
       (fst (VoltageData_new store_empty [1, 2, 3, 4] [5, 6, 7, 8] None), \<lparr>data_ref = 0\<rparr>))))
     \<lparr>data_ref = 0\<rparr>) = 2 \<and>
   table (fst (fst (run extern_example
       [Public Get_timestamps, Public Spline, Public (Call 0), Public (Getitem 0), Public Iter,
        Public Repr, Public Str, Public Get_voltage_errs]
       (fst (VoltageData_new store_empty [1, 2, 3, 4] [5, 6, 7, 8] None), \<lparr>data_ref = 0\<rparr>))))
     \<lparr>data_ref = 0\<rparr> = \<lparr>cells = [[1, 5], [2, 6], [3, 7], [4, 8]], shape1 = 2\<rparr> \<and>
   snd (snd (invoke extern_example Get_timestamps
       (fst (VoltageData_new store_empty [1, 2, 3, 4] [5, 6, 7, 8] None), \<lparr>data_ref = 0\<rparr>))) =
     Inr (View (Column_of 0 0)) \<and>
   (\<exists>st'. act extern_example (Caller_assign (Column_of 0 0) 0 9)
       (fst (VoltageData_new store_empty [1, 2, 3, 4] [5, 6, 7, 8] None), \<lparr>data_ref = 0\<rparr>) =
       ((st', \<lparr>data_ref = 0\<rparr>), [], Inr Assigned) \<and>
     deref st' (Column_of 0 0) = [9, 2, 3, 4])"
proof -
  let ?new = "VoltageData_new store_empty [1, 2, 3, 4 :: int] [5, 6, 7, 8] None"
  let ?self = "\<lparr>data_ref = 0\<rparr>"
  let ?mixed = "[Public Get_timestamps, Caller_assign (Column_of 0 0) 0 9, Public Spline,
      Public (Call 0), Public (Getitem 0), Public Iter, Public Repr, Public Str,
      Public Get_voltage_errs] :: (int, nat, int) action list"
  let ?calls = "[Public Get_timestamps, Public Spline, Public (Call 0), Public (Getitem 0),
      Public Iter, Public Repr, Public Str, Public Get_voltage_errs] :: (int, nat, int) action list"
  have made: "snd ?new = Inr ?self"
    by (simp add: VoltageData_new_def init_None alloc_def store_empty_def)
  then have new: "?new = (fst ?new, Inr ?self)"
    by (simp add: prod_eq_iff)
  have tab: "table (fst ?new) ?self = \<lparr>cells = [[1, 5], [2, 6], [3, 7], [4, 8]], shape1 = 2\<rparr>"
    by (simp add: VoltageData_new_def init_None alloc_def store_empty_def table_def)
  have pub: "list_all is_public ?calls"
    by (simp add: is_public_def)
  note A = stored_table_fixed [OF extern_example_reads_only new,
      where acts = ?mixed and j = 0 and x = 9]
  note B = stored_table_fixed [OF extern_example_reads_only new,
      where acts = ?calls and j = 0 and x = 9]
  from A have "num_columns (snapshot (fst (fst (run extern_example ?mixed (fst ?new, ?self)))) ?self) = 2"
    by simp
  moreover from B pub tab
  have "table (fst (fst (run extern_example ?calls (fst ?new, ?self)))) ?self =
      \<lparr>cells = [[1, 5], [2, 6], [3, 7], [4, 8]], shape1 = 2\<rparr>"
    by (simp only:)
  moreover from A have "snd (snd (invoke extern_example Get_timestamps (fst ?new, ?self))) =
      Inr (View (Column_of 0 0))"
    by simp
  moreover from A have "\<exists>st'. act extern_example (Caller_assign (Column_of 0 0) 0 9) (fst ?new, ?self) =
       ((st', ?self), [], Inr Assigned) \<and> deref st' (Column_of 0 0) = [9, 2, 3, 4]"
    by simp
  ultimately show ?thesis
    using extern_example_reads_only made by (intro conjI)
qed



text \<open>
  C8. Iteration over an instance built by the constructor ends without exception and
  yields one row for each row of the array; each row has as many entries as the array has
  columns; row \<open>i\<close> holds the \<open>i\<close>-th time, the \<open>i\<close>-th voltage and, when errors were
  given, the \<open>i\<close>-th error; and a second iteration, on the instance the first one left,
  yields the same rows.
\<close>

theorem iteration_rows:
  assumes "VoltageData_init ts vs es = Inr self"
  shows "\<exists>rs. iter self = (rs, None) \<and>
           length rs = num_rows self \<and>
           list_all (\<lambda>r. length r = num_columns self) rs \<and>
           (\<forall>i<num_rows self.
              rs ! i = [ts ! i, vs ! i] @ (case es of None \<Rightarrow> [] | Some e \<Rightarrow> [e ! i])) \<and>
           perform lib Iter self = (self, [], Inr (Rows rs)) \<and>
           perform lib Iter (fst (perform lib Iter self)) = (self, [], Inr (Rows rs))"
proof (intro exI conjI)
  show "iter self = (cells (data self), None)"
    by (rule iter_all)
  show "length (cells (data self)) = num_rows self"
    by (simp add: num_rows_def shape0_def)
  show "list_all (\<lambda>r. length r = num_columns self) (cells (data self))"
    by (rule init_shape(4) [OF assms])
  show "\<forall>i<num_rows self.
      cells (data self) ! i = [ts ! i, vs ! i] @ (case es of None \<Rightarrow> [] | Some e \<Rightarrow> [e ! i])"
    using init_cells [OF assms] init_shape(2) [OF assms] by simp
  show one: "perform lib Iter self = (self, [], Inr (Rows (cells (data self))))"
    by (simp add: perform_def iter_all)
  then show "perform lib Iter (fst (perform lib Iter self)) = (self, [], Inr (Rows (cells (data self))))"
    by simp
qed

theorem iteration_rows_witness:
  "VoltageData_init [1, 2 :: int] [3, 4] (Some [5, 6]) =
     Inr \<lparr>data = \<lparr>cells = [[1, 3, 5], [2, 4, 6]], shape1 = 3\<rparr>\<rparr> \<and>
   iter \<lparr>data = \<lparr>cells = [[1, 3, 5], [2, 4, 6 :: int]], shape1 = 3\<rparr>\<rparr> =
     ([[1, 3, 5], [2, 4, 6]], None)"
proof -
  have mem: "VoltageData_init [1, 2 :: int] [3, 4] (Some [5, 6]) =
     Inr \<lparr>data = \<lparr>cells = [[1, 3, 5], [2, 4, 6]], shape1 = 3\<rparr>\<rparr>"
    by (simp add: init_Some)
  from iteration_rows [OF mem] obtain rs where
    it: "iter \<lparr>data = \<lparr>cells = [[1, 3, 5], [2, 4, 6 :: int]], shape1 = 3\<rparr>\<rparr> = (rs, None)"
    and len: "length rs = num_rows \<lparr>data = \<lparr>cells = [[1, 3, 5], [2, 4, 6 :: int]], shape1 = 3\<rparr>\<rparr>"
    and nth: "\<forall>i<num_rows \<lparr>data = \<lparr>cells = [[1, 3, 5], [2, 4, 6 :: int]], shape1 = 3\<rparr>\<rparr>.
        rs ! i = [[1, 2] ! i, [3, 4] ! i] @ (case Some [5, 6] of None \<Rightarrow> [] | Some e \<Rightarrow> [e ! i])"
    by blast
  from len have l2: "length rs = 2"
    by (simp add: num_rows_def shape0_def)
  from nth have "rs ! 0 = [1, 3, 5]" and "rs ! 1 = [2, 4, 6]"
    by (simp_all add: num_rows_def shape0_def)
  with l2 have "rs = [[1, 3, 5], [2, 4, 6]]"
    by (intro nth_equalityI) (auto simp: less_Suc_eq numeral_2_eq_2)
  with it mem show ?thesis
    by simp
qed

text \<open>
  C9. When \<open>from_file\<close> returns an instance, its number of rows is the number of lines of the
  file that are not comments and whose time and value fields are both floats.
\<close>

theorem from_file_row_count:
  "from_file pf file = (printed, Inr self) \<Longrightarrow>
     num_rows self = length (filter (time_value_parsed pf) file)"
  by (auto simp: from_file_def Let_def read_lines_acc_t split: if_splits dest: init_shape(2))

theorem from_file_row_count_witness:
  "from_file float_digits
     [''# t v'' @ [NL], ''1'' @ [TAB] @ ''2'' @ [NL], ''abc'' @ [TAB] @ ''1'' @ [NL],
      ''3'' @ [TAB] @ ''4''] =
     ([Line_error 2 ''abc''], Inr \<lparr>data = \<lparr>cells = [[1, 2], [3, 4]], shape1 = 2\<rparr>\<rparr>) \<and>
   num_rows \<lparr>data = \<lparr>cells = [[1, 2], [3, 4 :: int]], shape1 = 2\<rparr>\<rparr> = 2 \<and>
   length (filter (time_value_parsed float_digits)
     [''# t v'' @ [NL], ''1'' @ [TAB] @ ''2'' @ [NL], ''abc'' @ [TAB] @ ''1'' @ [NL],
      ''3'' @ [TAB] @ ''4'']) = 2"
proof -
  have run: "from_file float_digits
     [''# t v'' @ [NL], ''1'' @ [TAB] @ ''2'' @ [NL], ''abc'' @ [TAB] @ ''1'' @ [NL],
      ''3'' @ [TAB] @ ''4''] =
     ([Line_error 2 ''abc''], Inr \<lparr>data = \<lparr>cells = [[1, 2], [3, 4]], shape1 = 2\<rparr>\<rparr>)"
    by code_simp
  have rows: "num_rows \<lparr>data = \<lparr>cells = [[1, 2], [3, 4 :: int]], shape1 = 2\<rparr>\<rparr> = 2"
    by (simp add: num_rows_def shape0_def)
  from from_file_row_count [OF run] run rows show ?thesis
    by simp
qed

text \<open>
  C10. When one line of the file has time, value and third field all floats, and another
  line has time and value floats but no third float (the field is missing or is not a
  float), \<open>dv\<close> is not empty and is shorter than \<open>t\<close> and \<open>v\<close>: the constructor raises
  \<open>ValueError\<close> and \<open>from_file\<close> returns no instance.
\<close>

theorem from_file_mixed_third_raises:
  assumes "l1 \<in> set file" and "third_parsed pf l1"
    and "l2 \<in> set file" and "time_value_parsed pf l2" and "\<not> third_parsed pf l2"
  shows "snd (from_file pf file) = Inl ValueError"
proof -
  let ?s = "read_lines pf 0 file \<lparr>acc_t = [], acc_v = [], acc_dv = [], acc_out = []\<rparr>"
  have some: "length (acc_dv ?s) \<noteq> 0"
    using assms(1,2) by (auto simp: read_lines_acc_dv filter_empty_conv)
  have "length (filter (third_parsed pf) file) < length (filter (time_value_parsed pf) file)"
    using assms(3,4,5)
    by (intro filter_length_less [where y = l2]) (auto dest: third_parsed_time_value)
  then have "length (acc_dv ?s) \<noteq> length (acc_v ?s)"
    by (simp add: read_lines_acc_dv read_lines_acc_v)
  with some show ?thesis
    by (simp add: from_file_def Let_def init_Some)
qed

theorem from_file_mixed_third_raises_witness:
  "''1'' @ [TAB] @ ''2'' @ [TAB] @ ''3'' @ [NL] \<in> set [''1'' @ [TAB] @ ''2'' @ [TAB] @ ''3'' @ [NL], ''4'' @ [TAB] @ ''5'' @ [NL]] \<and>
   third_parsed float_digits (''1'' @ [TAB] @ ''2'' @ [TAB] @ ''3'' @ [NL]) \<and>
   ''4'' @ [TAB] @ ''5'' @ [NL] \<in> set [''1'' @ [TAB] @ ''2'' @ [TAB] @ ''3'' @ [NL], ''4'' @ [TAB] @ ''5'' @ [NL]] \<and>
   time_value_parsed float_digits (''4'' @ [TAB] @ ''5'' @ [NL]) \<and>
   \<not> third_parsed float_digits (''4'' @ [TAB] @ ''5'' @ [NL]) \<and>
   snd (from_file float_digits [''1'' @ [TAB] @ ''2'' @ [TAB] @ ''3'' @ [NL], ''4'' @ [TAB] @ ''5'' @ [NL]]) =
     Inl ValueError"
proof -
  have a: "''1'' @ [TAB] @ ''2'' @ [TAB] @ ''3'' @ [NL] \<in> set [''1'' @ [TAB] @ ''2'' @ [TAB] @ ''3'' @ [NL], ''4'' @ [TAB] @ ''5'' @ [NL]]"
    by simp
  have b: "third_parsed float_digits (''1'' @ [TAB] @ ''2'' @ [TAB] @ ''3'' @ [NL])"
    by code_simp
  have c: "''4'' @ [TAB] @ ''5'' @ [NL] \<in> set [''1'' @ [TAB] @ ''2'' @ [TAB] @ ''3'' @ [NL], ''4'' @ [TAB] @ ''5'' @ [NL]]"
    by simp
  have d: "time_value_parsed float_digits (''4'' @ [TAB] @ ''5'' @ [NL])"
    by code_simp
  have e: "\<not> third_parsed float_digits (''4'' @ [TAB] @ ''5'' @ [NL])"
    by code_simp
  from from_file_mixed_third_raises [OF a b c d e] a b c d e show ?thesis
    by blast
qed

end
